theory Spec2Isabelle
  imports Complex_Main "HOL-Library.Sublist" "HOL-Library.AList" "HOL-Library.Log_Nat"
begin

section \<open>JavaScript values used by the controllers\<close>

text \<open>
  The controllers are JavaScript (Express handlers over a Sequelize ORM). The parts of
  the language they rely on are written out here: numbers, the conversion of strings to
  numbers behind \<^verbatim>\<open>isNaN\<close>, \<^verbatim>\<open>parseInt(s, 10)\<close>, truthiness behind \<^verbatim>\<open>||\<close>, and
  template literals.

  A number is an IEEE 754 double: a finite value, the negative zero, an infinity or
  NaN. A finite value is carried as the rational it denotes (\<open>Fin 0\<close> is the positive
  zero); every operation computes the exact result and rounds it to the nearest
  double, ties to the even significand.
  Strings are lists of \<^typ>\<open>char\<close>, that is code units below 256.
\<close>

datatype jsnum = Fin rat | NegZero | PInf | NInf | NaN

subsection \<open>Rounding to a double\<close>

text \<open>\<open>floor_log2 a\<close> is the binary exponent of a positive rational: \<open>2 ^ e \<le> a < 2 ^ (e + 1)\<close>.\<close>

definition floor_log2 :: "rat \<Rightarrow> int" where
  "floor_log2 a =
     (let (n, d) = quotient_of a; e = bitlen n - bitlen d
      in if a < 2 powi e then e - 1 else e)"

definition round_half_even :: "rat \<Rightarrow> int" where
  "round_half_even y =
     (let f = \<lfloor>y\<rfloor>; r = y - of_int f
      in if r < 1 / 2 then f else if 1 / 2 < r then f + 1 else if even f then f else f + 1)"

text \<open>
  The double nearest to a rational. The significand has 53 bits; below \<open>2 ^ - 1022\<close>
  the spacing stays \<open>2 ^ - 1074\<close> (subnormal numbers), a result that rounds to zero
  keeps the sign, and a result of \<open>2 ^ 1024\<close> or more is an infinity.
\<close>

definition round_double :: "rat \<Rightarrow> jsnum" where
  "round_double q =
     (if q = 0 then Fin 0
      else
        let a = \<bar>q\<bar>;
            p = max (floor_log2 a - 52) (- 1074);
            m = round_half_even (a / 2 powi p);
            r = of_int m * 2 powi p
        in if 2 powi 1024 \<le> r then (if q < 0 then NInf else PInf)
           else if m = 0 then (if q < 0 then NegZero else Fin 0)
           else Fin (if q < 0 then - r else r))"

subsection \<open>Arithmetic\<close>

fun negative :: "jsnum \<Rightarrow> bool" where
  "negative (Fin a) = (a < 0)"
| "negative NegZero = True"
| "negative NInf = True"
| "negative x = False"

fun is_zero :: "jsnum \<Rightarrow> bool" where
  "is_zero (Fin a) = (a = 0)"
| "is_zero NegZero = True"
| "is_zero x = False"

fun is_infinite :: "jsnum \<Rightarrow> bool" where
  "is_infinite PInf = True"
| "is_infinite NInf = True"
| "is_infinite x = False"

fun finite_value :: "jsnum \<Rightarrow> rat" where
  "finite_value (Fin a) = a"
| "finite_value x = 0"

definition signed_zero :: "bool \<Rightarrow> jsnum" where
  "signed_zero neg = (if neg then NegZero else Fin 0)"

definition signed_inf :: "bool \<Rightarrow> jsnum" where
  "signed_inf neg = (if neg then NInf else PInf)"

fun js_neg :: "jsnum \<Rightarrow> jsnum" where
  "js_neg (Fin a) = (if a = 0 then NegZero else Fin (- a))"
| "js_neg NegZero = Fin 0"
| "js_neg PInf = NInf"
| "js_neg NInf = PInf"
| "js_neg NaN = NaN"

text \<open>
  \<^verbatim>\<open>a + b\<close>: opposite infinities give NaN; two zeros give the negative zero only when
  both are negative; an exact sum of zero is the positive zero.
\<close>

definition js_add :: "jsnum \<Rightarrow> jsnum \<Rightarrow> jsnum" where
  "js_add x y =
     (if x = NaN \<or> y = NaN then NaN
      else if is_infinite x then (if is_infinite y \<and> x \<noteq> y then NaN else x)
      else if is_infinite y then y
      else if is_zero x \<and> is_zero y then signed_zero (negative x \<and> negative y)
      else let s = finite_value x + finite_value y
           in if s = 0 then Fin 0 else round_double s)"

text \<open>\<^verbatim>\<open>a - b\<close> on numbers.\<close>

definition js_sub :: "jsnum \<Rightarrow> jsnum \<Rightarrow> jsnum" where
  "js_sub x y = js_add x (js_neg y)"

text \<open>
  \<^verbatim>\<open>a * b\<close>: the sign is the product of the signs; zero times an infinity is NaN.
\<close>

definition js_mul :: "jsnum \<Rightarrow> jsnum \<Rightarrow> jsnum" where
  "js_mul x y =
     (if x = NaN \<or> y = NaN then NaN
      else
        let neg = (negative x \<noteq> negative y)
        in if is_infinite x \<or> is_infinite y then
             (if is_zero x \<or> is_zero y then NaN else signed_inf neg)
           else if is_zero x \<or> is_zero y then signed_zero neg
           else round_double (finite_value x * finite_value y))"

text \<open>
  \<^verbatim>\<open>a / b\<close>: a number that is not zero over a zero is an infinity, zero over zero and
  an infinity over an infinity are NaN, a finite number over an infinity is a zero.
\<close>

definition js_div :: "jsnum \<Rightarrow> jsnum \<Rightarrow> jsnum" where
  "js_div x y =
     (if x = NaN \<or> y = NaN then NaN
      else
        let neg = (negative x \<noteq> negative y)
        in if is_infinite x then (if is_infinite y then NaN else signed_inf neg)
           else if is_infinite y then signed_zero neg
           else if is_zero y then (if is_zero x then NaN else signed_inf neg)
           else if is_zero x then signed_zero neg
           else round_double (finite_value x / finite_value y))"

text \<open>\<^verbatim>\<open>Math.ceil\<close>: a value between \<open>-1\<close> and zero goes to the negative zero.\<close>

fun Math_ceil :: "jsnum \<Rightarrow> jsnum" where
  "Math_ceil (Fin a) = (if - 1 < a \<and> a < 0 then NegZero else Fin (of_int \<lceil>a\<rceil>))"
| "Math_ceil x = x"

subsection \<open>Strings to numbers\<close>

text \<open>
  White space that \<^verbatim>\<open>Number\<close> and \<^verbatim>\<open>parseInt\<close> strip: TAB, LF, VT, FF, CR, SP and
  NBSP.
\<close>

definition isWhiteSpace :: "char \<Rightarrow> bool" where
  "isWhiteSpace c = (c \<in> set [CHR 0x09, CHR 0x0A, CHR 0x0B, CHR 0x0C, CHR 0x0D, CHR 0x20, CHR 0xA0])"

definition trim :: "string \<Rightarrow> string" where
  "trim s = rev (dropWhile isWhiteSpace (rev (dropWhile isWhiteSpace s)))"

text \<open>The value of a digit in radix up to 16; \<open>None\<close> for any other character.\<close>

definition hexDigit :: "char \<Rightarrow> nat option" where
  "hexDigit c =
     map_of
       [(CHR ''0'', 0), (CHR ''1'', 1), (CHR ''2'', 2), (CHR ''3'', 3), (CHR ''4'', 4),
        (CHR ''5'', 5), (CHR ''6'', 6), (CHR ''7'', 7), (CHR ''8'', 8), (CHR ''9'', 9),
        (CHR ''a'', 10), (CHR ''b'', 11), (CHR ''c'', 12), (CHR ''d'', 13), (CHR ''e'', 14),
        (CHR ''f'', 15), (CHR ''A'', 10), (CHR ''B'', 11), (CHR ''C'', 12), (CHR ''D'', 13),
        (CHR ''E'', 14), (CHR ''F'', 15)] c"

definition isDigit :: "nat \<Rightarrow> char \<Rightarrow> bool" where
  "isDigit radix c = (case hexDigit c of None \<Rightarrow> False | Some d \<Rightarrow> d < radix)"

definition digitValue :: "char \<Rightarrow> nat" where
  "digitValue c = (case hexDigit c of None \<Rightarrow> 0 | Some d \<Rightarrow> d)"

text \<open>The mathematical value of a string of digits in the given radix.\<close>

definition digitsValue :: "nat \<Rightarrow> string \<Rightarrow> nat" where
  "digitsValue radix ds = foldl (\<lambda>a c. radix * a + digitValue c) 0 ds"

definition allDigits :: "nat \<Rightarrow> string \<Rightarrow> bool" where
  "allDigits radix ds = (ds \<noteq> [] \<and> list_all (isDigit radix) ds)"

text \<open>
  The exponent part of a decimal literal: nothing, or \<^verbatim>\<open>e\<close>/\<^verbatim>\<open>E\<close>, an optional sign
  and at least one digit. \<open>None\<close> when the text is not an exponent part.
\<close>

definition exponentPart :: "string \<Rightarrow> int option" where
  "exponentPart s =
     (case s of
        [] \<Rightarrow> Some 0
      | c # r \<Rightarrow>
          if c = CHR ''e'' \<or> c = CHR ''E'' then
            (case r of
               [] \<Rightarrow> None
             | d # ds \<Rightarrow>
                 if d = CHR ''+'' then (if allDigits 10 ds then Some (int (digitsValue 10 ds)) else None)
                 else if d = CHR ''-'' then (if allDigits 10 ds then Some (- int (digitsValue 10 ds)) else None)
                 else (if allDigits 10 r then Some (int (digitsValue 10 r)) else None))
          else None)"

definition scale10 :: "rat \<Rightarrow> int \<Rightarrow> rat" where
  "scale10 m e = (if e < 0 then m / 10 ^ nat (- e) else m * 10 ^ nat e)"

text \<open>
  An unsigned decimal literal: \<^verbatim>\<open>Infinity\<close>, or digits with an optional fraction and
  exponent, where the integer part or the fraction has a digit. Its value is the
  double nearest to the number written.
\<close>

definition unsignedDecimal :: "string \<Rightarrow> jsnum" where
  "unsignedDecimal s =
     (if s = ''Infinity'' then PInf
      else
        let ip = takeWhile (isDigit 10) s;
            r1 = dropWhile (isDigit 10) s;
            dot = (r1 \<noteq> [] \<and> hd r1 = CHR ''.'');
            fp = (if dot then takeWhile (isDigit 10) (tl r1) else []);
            r2 = (if dot then dropWhile (isDigit 10) (tl r1) else r1)
        in if ip = [] \<and> fp = [] then NaN
           else (case exponentPart r2 of
                   None \<Rightarrow> NaN
                 | Some e \<Rightarrow>
                     round_double (scale10 (of_nat (digitsValue 10 (ip @ fp)) / 10 ^ length fp) e)))"

text \<open>A literal with a radix prefix: \<^verbatim>\<open>0x\<close>, \<^verbatim>\<open>0o\<close>, \<^verbatim>\<open>0b\<close> in either case; no sign.\<close>

definition radixOfPrefix :: "string \<Rightarrow> nat option" where
  "radixOfPrefix s =
     (case s of
        c # x # _ \<Rightarrow>
          if c = CHR ''0'' then
            (if x = CHR ''x'' \<or> x = CHR ''X'' then Some 16
             else if x = CHR ''o'' \<or> x = CHR ''O'' then Some 8
             else if x = CHR ''b'' \<or> x = CHR ''B'' then Some 2
             else None)
          else None
      | _ \<Rightarrow> None)"

text \<open>\<^verbatim>\<open>Number(s)\<close> for a string: the empty or blank string is \<open>0\<close>.\<close>

definition StringToNumber :: "string \<Rightarrow> jsnum" where
  "StringToNumber s =
     (let t = trim s in
      if t = [] then Fin 0
      else (case radixOfPrefix t of
              Some radix \<Rightarrow>
                if allDigits radix (drop 2 t) then round_double (of_nat (digitsValue radix (drop 2 t)))
                else NaN
            | None \<Rightarrow>
                if hd t = CHR ''+'' then unsignedDecimal (tl t)
                else if hd t = CHR ''-'' then js_neg (unsignedDecimal (tl t))
                else unsignedDecimal t))"

text \<open>
  \<^verbatim>\<open>parseInt(s, 10)\<close> for a string: leading white space and a sign are skipped, the
  longest run of decimal digits is read, whatever follows is ignored; NaN when there is
  no digit. The integer read is rounded to a double; \<^verbatim>\<open>-0\<close> is the negative zero.
\<close>

definition parseInt10 :: "string \<Rightarrow> jsnum" where
  "parseInt10 s =
     (let t = dropWhile isWhiteSpace s;
          neg = (t \<noteq> [] \<and> hd t = CHR ''-'');
          u = (if t \<noteq> [] \<and> (hd t = CHR ''+'' \<or> hd t = CHR ''-'') then tl t else t);
          z = takeWhile (isDigit 10) u
      in if z = [] then NaN
         else if neg then js_neg (round_double (of_nat (digitsValue 10 z)))
         else round_double (of_nat (digitsValue 10 z)))"

subsection \<open>Request variables\<close>

text \<open>
  A query-string parameter arrives as a string or is absent (\<^verbatim>\<open>undefined\<close>). After the
  defaulting at the head of a handler the variable may also hold one of the integer
  literals \<open>1\<close>, \<open>20\<close>, \<open>200\<close>, so the number case carries a natural number (these are
  doubles as they stand).
\<close>

datatype qvalue = Undefined | Str string | Num nat

fun param :: "string option \<Rightarrow> qvalue" where
  "param None = Undefined"
| "param (Some s) = Str s"

fun ToNumber :: "qvalue \<Rightarrow> jsnum" where
  "ToNumber Undefined = NaN"
| "ToNumber (Str s) = StringToNumber s"
| "ToNumber (Num n) = Fin (of_nat n)"

definition isNaN :: "qvalue \<Rightarrow> bool" where
  "isNaN v = (ToNumber v = NaN)"

fun truthy :: "qvalue \<Rightarrow> bool" where
  "truthy Undefined = False"
| "truthy (Str s) = (s \<noteq> [])"
| "truthy (Num n) = (n \<noteq> 0)"

text \<open>\<^verbatim>\<open>a || b\<close>.\<close>

definition js_or :: "qvalue \<Rightarrow> qvalue \<Rightarrow> qvalue" where
  "js_or a b = (if truthy a then a else b)"

text \<open>A destructuring default, \<^verbatim>\<open>const { x = d } = obj\<close>: used only when \<^verbatim>\<open>x\<close> is undefined.\<close>

fun default_to :: "qvalue \<Rightarrow> qvalue \<Rightarrow> qvalue" where
  "default_to Undefined d = d"
| "default_to v d = v"

fun decimal :: "nat \<Rightarrow> string" where
  "decimal n =
     (if n < 10 then [''0123456789'' ! n]
      else decimal (n div 10) @ [''0123456789'' ! (n mod 10)])"

declare decimal.simps [simp del]

text \<open>The text a value contributes to a template literal.\<close>

fun ToString :: "qvalue \<Rightarrow> string" where
  "ToString Undefined = ''undefined''"
| "ToString (Str s) = s"
| "ToString (Num n) = decimal n"

text \<open>\<^verbatim>\<open>parseInt(v, 10)\<close>: the argument is converted to a string first.\<close>

definition parseInt :: "qvalue \<Rightarrow> jsnum" where
  "parseInt v = parseInt10 (ToString v)"

subsection \<open>Values sent as JSON and rows of the database\<close>

datatype jsval =
    JUndefined
  | JNull
  | JBool bool
  | JNumber jsnum
  | JString string
  | JArray "jsval list"
  | JObject "(string \<times> jsval) list"

text \<open>
  A model instance answered by the ORM is an object; it is represented by its data
  values, in order. \<open>get_prop\<close> is the property read \<^verbatim>\<open>x.k\<close> on an instance.
\<close>

type_synonym entity = "(string \<times> jsval) list"

definition get_prop :: "entity \<Rightarrow> string \<Rightarrow> jsval" where
  "get_prop x k = (case map_of x k of None \<Rightarrow> JUndefined | Some v \<Rightarrow> v)"

datatype error = DatabaseError string | TypeError

text \<open>
  Reading a property in a destructuring pattern: \<^verbatim>\<open>undefined\<close> and \<^verbatim>\<open>null\<close> throw a
  TypeError; a primitive or an array has none of the properties read here (\<^verbatim>\<open>value\<close>,
  \<^verbatim>\<open>attribute_type\<close>, \<^verbatim>\<open>name\<close>).
\<close>

fun read_member :: "jsval \<Rightarrow> string \<Rightarrow> error + jsval" where
  "read_member JUndefined k = Inl TypeError"
| "read_member JNull k = Inl TypeError"
| "read_member (JObject x) k = Inr (get_prop x k)"
| "read_member v k = Inr JUndefined"

text \<open>\<^verbatim>\<open>xs.map(f)\<close> where \<^verbatim>\<open>f\<close> may throw: the first exception ends the map.\<close>

fun map_throwing :: "('a \<Rightarrow> error + 'b) \<Rightarrow> 'a list \<Rightarrow> error + 'b list" where
  "map_throwing f [] = Inr []"
| "map_throwing f (x # xs) =
     (case f x of
        Inl e \<Rightarrow> Inl e
      | Inr y \<Rightarrow> (case map_throwing f xs of Inl e \<Rightarrow> Inl e | Inr ys \<Rightarrow> Inr (y # ys)))"

section \<open>The ORM as the controllers see it\<close>

datatype model =
  Product | ProductCategory | Department | Category | Tax
  | Attribute | AttributeValue | ProductAttribute | Review

text \<open>An entry of an \<^verbatim>\<open>attributes\<close> array: a column name or \<^verbatim>\<open>sequelize.literal(sql)\<close>.\<close>

datatype attribute = Column string | Literal string

text \<open>
  A condition of a \<^verbatim>\<open>where\<close> object: a plain value, \<^verbatim>\<open>{ [Op.eq]: v }\<close> or
  \<^verbatim>\<open>{ [Op.substring]: v }\<close>.
\<close>

datatype condition = Equals string | OpEq string | OpSubstring string

datatype inclusion =
  Include (inc_model: model) (inc_as: "string option")
    (inc_where: "(string \<times> condition) list") (inc_attributes: "attribute list option")
    (inc_include: "inclusion list")

text \<open>
  The options object handed to a finder, as the ORM reads it at the call: arrays by
  their contents. A missing \<^verbatim>\<open>where\<close> or \<^verbatim>\<open>include\<close> is the empty list.
\<close>

record options =
  opt_attributes :: "attribute list option"
  opt_limit :: "jsnum option"
  opt_offset :: "jsnum option"
  opt_where :: "(string \<times> condition) list"
  opt_include :: "inclusion list"

definition no_options :: options where
  "no_options =
     \<lparr>opt_attributes = None, opt_limit = None, opt_offset = None, opt_where = [], opt_include = []\<rparr>"

text \<open>
  The database is a parameter: what each finder answers, or the error it throws.
  \<^verbatim>\<open>findAll\<close> answers an array, \<^verbatim>\<open>findAndCountAll\<close> rows and a count, \<^verbatim>\<open>findByPk\<close> an
  instance or \<^verbatim>\<open>null\<close>.
\<close>

record database =
  findAll :: "model \<Rightarrow> options option \<Rightarrow> error + entity list"
  findAndCountAll :: "model \<Rightarrow> options \<Rightarrow> error + (entity list \<times> nat)"
  findByPk :: "model \<Rightarrow> string \<Rightarrow> options option \<Rightarrow> error + entity option"

datatype db_call =
    FindAll model "options option"
  | FindAndCountAll model options
  | FindByPk model string "options option"

text \<open>The error a call throws on a database, if it throws.\<close>

fun thrown :: "database \<Rightarrow> db_call \<Rightarrow> error option" where
  "thrown db (FindAll m q) = (case findAll db m q of Inl e \<Rightarrow> Some e | Inr _ \<Rightarrow> None)"
| "thrown db (FindAndCountAll m q) = (case findAndCountAll db m q of Inl e \<Rightarrow> Some e | Inr _ \<Rightarrow> None)"
| "thrown db (FindByPk m k q) = (case findByPk db m k q of Inl e \<Rightarrow> Some e | Inr _ \<Rightarrow> None)"

section \<open>Requests, effects and the module state\<close>

record query_params =
  page :: "string option"
  limit :: "string option"
  description_length :: "string option"
  query_string :: "string option"
  all_words :: "string option"

text \<open>Route parameters are bound by the router, so each is a string.\<close>

record route_params =
  product_id :: string
  category_id :: string
  department_id :: string
  tax_id :: string
  attribute_id :: string

record request =
  query :: query_params
  params :: route_params

text \<open>
  What a handler does, in order: a call to the ORM, \<^verbatim>\<open>res.status(n).json(body)\<close>, or
  \<^verbatim>\<open>next(error)\<close>.
\<close>

datatype effect = Query db_call | Send nat jsval | Next error

text \<open>
  Arrays are JavaScript references, so they live in a store. The array literal of the
  module-level \<^verbatim>\<open>productsQueryMap\<close> has an address of its own; arrays made while a
  request is handled get fresh addresses.
\<close>

datatype addr = ProductsQueryMapAttributes | Fresh nat

record store =
  heap :: "addr \<Rightarrow> attribute list"
  fresh :: nat

text \<open>\<^verbatim>\<open>a.push(x)\<close> changes the array at the address.\<close>

definition push :: "store \<Rightarrow> addr \<Rightarrow> attribute \<Rightarrow> store" where
  "push st a x = st\<lparr>heap := (heap st)(a := heap st a @ [x])\<rparr>"

text \<open>\<^verbatim>\<open>a.concat(xs)\<close> makes a new array and leaves the old one alone.\<close>

definition concat_array :: "store \<Rightarrow> addr \<Rightarrow> attribute list \<Rightarrow> addr \<times> store" where
  "concat_array st a xs =
     (Fresh (fresh st),
      st\<lparr>heap := (heap st)(Fresh (fresh st) := heap st a @ xs), fresh := Suc (fresh st)\<rparr>)"

text \<open>
  The object \<^verbatim>\<open>sqlQueryMap\<close> of the product handlers: its \<^verbatim>\<open>attributes\<close> field holds a
  reference.
\<close>

record query_map =
  qm_attributes :: addr
  qm_limit :: "jsnum option"
  qm_offset :: "jsnum option"
  qm_where :: "(string \<times> condition) list"

definition productsQueryMap :: query_map where
  "productsQueryMap =
     \<lparr>qm_attributes = ProductsQueryMapAttributes, qm_limit = None, qm_offset = None, qm_where = []\<rparr>"

text \<open>
  \<^verbatim>\<open>Object.assign({}, m)\<close> copies the fields of \<^verbatim>\<open>m\<close> into a new object: the copy is
  shallow, the \<^verbatim>\<open>attributes\<close> field of the copy refers to the same array.
\<close>

definition Object_assign_empty :: "query_map \<Rightarrow> query_map" where
  "Object_assign_empty m = m"

text \<open>The module state when the module has been loaded.\<close>

definition initial_store :: store where
  "initial_store =
     \<lparr>heap = (\<lambda>_. [])(ProductsQueryMapAttributes :=
        [Column ''product_id'', Column ''name'', Column ''price'', Column ''thumbnail'',
         Column ''discounted_price'', Column ''description'']),
      fresh = 0\<rparr>"

text \<open>The options the ORM reads from a \<^verbatim>\<open>sqlQueryMap\<close> at the time of the call.\<close>

definition snapshot :: "store \<Rightarrow> query_map \<Rightarrow> options" where
  "snapshot st m =
     \<lparr>opt_attributes = Some (heap st (qm_attributes m)), opt_limit = qm_limit m,
      opt_offset = qm_offset m, opt_where = qm_where m, opt_include = []\<rparr>"

definition not_found :: "string \<Rightarrow> jsval" where
  "not_found message =
     JObject [(''error'', JObject [(''status'', JNumber (Fin 404)), (''message'', JString message)])]"

section \<open>Awaiting the ORM inside \<^verbatim>\<open>try\<close>\<close>

text \<open>
  Every handler awaits one finder inside a \<^verbatim>\<open>try\<close> block whose \<^verbatim>\<open>catch\<close> clause is
  \<^verbatim>\<open>return next(error)\<close>: the call is made; when it throws, the error goes to \<^verbatim>\<open>next\<close>;
  otherwise the rest of the block runs on the answer.
\<close>

definition try_findAll ::
  "database \<Rightarrow> model \<Rightarrow> options option \<Rightarrow> (entity list \<Rightarrow> effect list) \<Rightarrow> effect list" where
  "try_findAll db m q rest =
     Query (FindAll m q) # (case findAll db m q of Inl error \<Rightarrow> [Next error] | Inr xs \<Rightarrow> rest xs)"

definition try_findAndCountAll ::
  "database \<Rightarrow> model \<Rightarrow> options \<Rightarrow> (entity list \<times> nat \<Rightarrow> effect list) \<Rightarrow> effect list" where
  "try_findAndCountAll db m q rest =
     Query (FindAndCountAll m q)
     # (case findAndCountAll db m q of Inl error \<Rightarrow> [Next error] | Inr r \<Rightarrow> rest r)"

definition try_findByPk ::
  "database \<Rightarrow> model \<Rightarrow> string \<Rightarrow> options option \<Rightarrow> (entity option \<Rightarrow> effect list) \<Rightarrow> effect list" where
  "try_findByPk db m k q rest =
     Query (FindByPk m k q)
     # (case findByPk db m k q of Inl error \<Rightarrow> [Next error] | Inr x \<Rightarrow> rest x)"

section \<open>ProductController\<close>

definition invalid_query :: jsval where
  "invalid_query =
     JObject [(''err'', JString ''Query parameters should be valid integer values''),
              (''status'', JBool False)]"

text \<open>
  \<^verbatim>\<open>getAllProducts\<close>. \<^verbatim>\<open>description_length\<close> has no default here. The copy made by
  \<^verbatim>\<open>Object.assign\<close> shares the \<^verbatim>\<open>attributes\<close> array of \<^verbatim>\<open>productsQueryMap\<close>, and
  \<^verbatim>\<open>push\<close> appends to that array.
\<close>

text \<open>
  The \<^verbatim>\<open>paginationMeta\<close> object of \<^verbatim>\<open>getAllProducts\<close>. The count the ORM answers is a
  JavaScript number, that is the double of the number of records.
\<close>

definition paginationMeta :: "qvalue \<Rightarrow> qvalue \<Rightarrow> nat \<Rightarrow> jsval" where
  "paginationMeta page' limit' count =
     JObject
       [(''currentPage'', JNumber (parseInt page')),
        (''currentPageSize'', JNumber (parseInt limit')),
        (''totalPages'',
           JNumber (Math_ceil (js_div (round_double (of_nat count)) (ToNumber limit')))),
        (''totalRecords'', JNumber (round_double (of_nat count)))]"

definition getAllProducts :: "store \<Rightarrow> database \<Rightarrow> request \<Rightarrow> effect list \<times> store" where
  "getAllProducts st db req =
     (let descriptionLength = param (description_length (query req));
          limit = js_or (param (limit (query req))) (Num 20);
          page = js_or (param (page (query req))) (Num 1)
      in if isNaN page \<or> isNaN limit \<or> isNaN descriptionLength then
           ([Send 400 invalid_query], st)
         else
           let sqlQueryMap = Object_assign_empty productsQueryMap;
               sqlQueryMap = sqlQueryMap\<lparr>qm_limit := Some (parseInt limit)\<rparr>;
               sqlQueryMap = sqlQueryMap\<lparr>qm_offset :=
                 Some (js_mul (js_sub (ToNumber page) (Fin 1)) (ToNumber limit))\<rparr>;
               st = push st (qm_attributes sqlQueryMap)
                 (Literal (''SUBSTRING(description, 1, '' @ ToString descriptionLength
                    @ '') as description''))
           in (try_findAndCountAll db Product (snapshot st sqlQueryMap)
                 (\<lambda>(rows, count).
                    [Send 200 (JObject [(''paginationMeta'', paginationMeta page limit count),
                                        (''rows'', JArray (map JObject rows)),
                                        (''status'', JBool True)])]),
               st))"

text \<open>\<^verbatim>\<open>searchProduct\<close>: \<^verbatim>\<open>concat\<close> builds a new array for the copy.\<close>

definition searchProduct :: "store \<Rightarrow> database \<Rightarrow> request \<Rightarrow> effect list \<times> store" where
  "searchProduct st db req =
     (let queryString = param (query_string (query req));
          allWords = param (all_words (query req));
          descriptionLength = default_to (param (description_length (query req))) (Num 200);
          limit = js_or (param (limit (query req))) (Num 20);
          page = js_or (param (page (query req))) (Num 1)
      in if isNaN page \<or> isNaN limit \<or> isNaN descriptionLength then
           ([Send 400 invalid_query], st)
         else
           let sqlQueryMap = Object_assign_empty productsQueryMap;
               attributes = qm_attributes sqlQueryMap;
               (a, st) = concat_array st attributes
                 [Literal (''SUBSTRING(description, 1, ''
                    @ ToString (js_or descriptionLength (Num 200)) @ '') as description'')];
               sqlQueryMap = sqlQueryMap\<lparr>qm_attributes := a\<rparr>;
               searchParam =
                 (if allWords = Str ''on'' then OpEq (ToString queryString)
                  else OpSubstring (ToString queryString));
               sqlQueryMap = sqlQueryMap\<lparr>qm_where := [(''name'', searchParam)]\<rparr>;
               sqlQueryMap = sqlQueryMap\<lparr>qm_limit := Some (parseInt limit)\<rparr>;
               sqlQueryMap = sqlQueryMap\<lparr>qm_offset :=
                 Some (js_mul (js_sub (ToNumber page) (Fin 1)) (ToNumber limit))\<rparr>
           in (try_findAll db Product (Some (snapshot st sqlQueryMap))
                 (\<lambda>product. [Send 200 (JArray (map JObject product))]),
               st))"

text \<open>
  \<^verbatim>\<open>getProductsByCategory\<close> and \<^verbatim>\<open>getProductsByDepartment\<close> spread the shared array
  into a new array literal. The row sent for a join row is its \<^verbatim>\<open>product\<close> property.
\<close>

definition getProductsByCategory :: "store \<Rightarrow> database \<Rightarrow> request \<Rightarrow> effect list \<times> store" where
  "getProductsByCategory st db req =
     (let category_id = category_id (params req);
          descriptionLength = default_to (param (description_length (query req))) (Num 200);
          page = default_to (param (page (query req))) (Num 1);
          limit = default_to (param (limit (query req))) (Num 20)
      in if isNaN page \<or> isNaN limit \<or> isNaN descriptionLength then
           ([Send 400 invalid_query], st)
         else
           let offset = js_mul (js_sub (ToNumber (js_or page (Num 1))) (Fin 1))
                          (ToNumber (js_or limit (Num 20)));
               queryMap =
                 \<lparr>opt_attributes = None,
                  opt_limit = Some (if truthy limit then parseInt limit else Fin 20),
                  opt_offset = Some offset,
                  opt_where = [(''category_id'', Equals category_id)],
                  opt_include =
                    [Include Product (Some ''product'') []
                       (Some (heap st (qm_attributes productsQueryMap)
                          @ [Literal (''SUBSTRING(description, 1, ''
                               @ ToString (js_or descriptionLength (Num 200))
                               @ '') as description'')])) []]\<rparr>
           in (try_findAll db ProductCategory (Some queryMap)
                 (\<lambda>products.
                    let rows = map (\<lambda>x. get_prop x ''product'') products
                    in [Send 200 (JObject [(''rows'', JArray rows)])]),
               st))"

definition getProductsByDepartment :: "store \<Rightarrow> database \<Rightarrow> request \<Rightarrow> effect list \<times> store" where
  "getProductsByDepartment st db req =
     (let department_id = department_id (params req);
          descriptionLength = default_to (param (description_length (query req))) (Num 200);
          page = default_to (param (page (query req))) (Num 1);
          limit = default_to (param (limit (query req))) (Num 20)
      in if isNaN page \<or> isNaN limit \<or> isNaN descriptionLength then
           ([Send 400 invalid_query], st)
         else
           let offset = js_mul (js_sub (ToNumber (js_or page (Num 1))) (Fin 1))
                          (ToNumber (js_or limit (Num 20)));
               queryMap =
                 \<lparr>opt_attributes = Some [],
                  opt_limit = Some (if truthy limit then parseInt limit else Fin 20),
                  opt_offset = Some offset,
                  opt_where = [],
                  opt_include =
                    [Include Category None [(''department_id'', Equals department_id)] (Some []) [],
                     Include Product (Some ''product'') []
                       (Some (heap st (qm_attributes productsQueryMap)
                          @ [Literal (''SUBSTRING(product.description, 1, ''
                               @ ToString (js_or descriptionLength (Num 200))
                               @ '') as description'')])) []]\<rparr>
           in (try_findAll db ProductCategory (Some queryMap)
                 (\<lambda>products.
                    let rows = map (\<lambda>x. get_prop x ''product'') products
                    in [Send 200 (JObject [(''rows'', JArray rows)])]),
               st))"

definition getProduct :: "store \<Rightarrow> database \<Rightarrow> request \<Rightarrow> effect list \<times> store" where
  "getProduct st db req =
     (let descriptionLength = default_to (param (description_length (query req))) (Num 200);
          productId = product_id (params req)
      in if isNaN descriptionLength then
           ([Send 400 (JObject
               [(''err'', JString ''description_length should be valid integer values''),
                (''status'', JBool False)])], st)
         else
           let sqlQueryMap = Object_assign_empty productsQueryMap;
               attributes = qm_attributes sqlQueryMap;
               (a, st) = concat_array st attributes
                 [Column ''image'', Column ''display'', Column ''image_2'',
                  Literal (''SUBSTRING(description, 1, '' @ ToString descriptionLength
                     @ '') as description'')];
               sqlQueryMap = sqlQueryMap\<lparr>qm_attributes := a\<rparr>
           in (try_findByPk db Product productId (Some (snapshot st sqlQueryMap))
                 (\<lambda>product.
                    case product of
                      Some p \<Rightarrow> [Send 200 (JObject p)]
                    | None \<Rightarrow>
                        [Send 404
                           (not_found (''Product with id '' @ productId @ '' does not exist''))]),
               st))"

text \<open>
  The lookups by primary key without options share one shape: the instance with 200,
  or 404 with a message naming the kind and the id.
\<close>

definition find_one :: "model \<Rightarrow> string \<Rightarrow> string \<Rightarrow> database \<Rightarrow> effect list" where
  "find_one m kind ident db =
     try_findByPk db m ident None
       (\<lambda>found.
          case found of
            Some x \<Rightarrow> [Send 200 (JObject x)]
          | None \<Rightarrow> [Send 404 (not_found (kind @ '' with id '' @ ident @ '' does not exist''))])"

definition getAllDepartments :: "store \<Rightarrow> database \<Rightarrow> request \<Rightarrow> effect list \<times> store" where
  "getAllDepartments st db req =
     (try_findAll db Department None
        (\<lambda>departments. [Send 200 (JArray (map JObject departments))]), st)"

definition getDepartment :: "store \<Rightarrow> database \<Rightarrow> request \<Rightarrow> effect list \<times> store" where
  "getDepartment st db req =
     (let departmentId = department_id (params req)
      in (find_one Department ''Department'' departmentId db, st))"

definition getAllCategories :: "store \<Rightarrow> database \<Rightarrow> request \<Rightarrow> effect list \<times> store" where
  "getAllCategories st db req =
     (try_findAll db Category None
        (\<lambda>categories. [Send 200 (JObject [(''rows'', JArray (map JObject categories))])]), st)"

definition getSingleCategory :: "store \<Rightarrow> database \<Rightarrow> request \<Rightarrow> effect list \<times> store" where
  "getSingleCategory st db req =
     (let categoryId = category_id (params req)
      in (find_one Category ''Category'' categoryId db, st))"

definition getDepartmentCategories :: "store \<Rightarrow> database \<Rightarrow> request \<Rightarrow> effect list \<times> store" where
  "getDepartmentCategories st db req =
     (let queryMap = no_options\<lparr>opt_where :=
            [(''department_id'', Equals (department_id (params req)))]\<rparr>
      in (try_findAll db Category (Some queryMap)
            (\<lambda>categories. [Send 200 (JObject [(''rows'', JArray (map JObject categories))])]),
          st))"

text \<open>
  \<^verbatim>\<open>getProductCategories\<close> answers \<^verbatim>\<open>categories[0].Category\<close>, the category of the
  first join row, when there is a row.
\<close>

definition getProductCategories :: "store \<Rightarrow> database \<Rightarrow> request \<Rightarrow> effect list \<times> store" where
  "getProductCategories st db req =
     (let queryMap = no_options
            \<lparr>opt_attributes := Some [],
             opt_where := [(''product_id'', Equals (product_id (params req)))],
             opt_include :=
               [Include Category None []
                  (Some [Column ''name'', Column ''category_id'', Column ''department_id'']) []]\<rparr>
      in (try_findAll db ProductCategory (Some queryMap)
            (\<lambda>categories.
               if length categories > 0 then
                 [Send 200 (get_prop (categories ! 0) ''Category'')]
               else [Send 404 (not_found ''Category not found'')]),
          st))"

text \<open>
  \<^verbatim>\<open>getProductReviews\<close> (in the later of the two versions of the product controller
  among the sources): each review is sent without its \<^verbatim>\<open>Product\<close> property and with
  the product's name; reading the name of a missing product throws inside the
  \<^verbatim>\<open>try\<close> block.
\<close>

definition review_with_name :: "entity \<Rightarrow> error + jsval" where
  "review_with_name dataValues =
     (let product = get_prop dataValues ''Product'';
          x = filter (\<lambda>(k, v). k \<noteq> ''Product'') dataValues
      in case read_member product ''name'' of
           Inl e \<Rightarrow> Inl e
         | Inr name \<Rightarrow> Inr (JObject (AList.update ''name'' name x)))"

definition getProductReviews :: "store \<Rightarrow> database \<Rightarrow> request \<Rightarrow> effect list \<times> store" where
  "getProductReviews st db req =
     (let product_id = product_id (params req);
          queryMap = no_options
            \<lparr>opt_where := [(''product_id'', Equals product_id)],
             opt_attributes := Some [Column ''created_on'', Column ''review'', Column ''rating''],
             opt_include := [Include Product None [] (Some [Column ''name'']) []]\<rparr>
      in (try_findAll db Review (Some queryMap)
            (\<lambda>reviews.
               case map_throwing review_with_name reviews of
                 Inl error \<Rightarrow> [Next error]
               | Inr productReviews \<Rightarrow> [Send 200 (JArray productReviews)]),
          st))"

section \<open>TaxController\<close>

text \<open>
  The sources hold an earlier version in which \<^verbatim>\<open>getSingleTax\<close> is a stub that answers
  200 without calling the ORM; the version modelled is the one that looks the tax up.
\<close>

definition getAllTax :: "store \<Rightarrow> database \<Rightarrow> request \<Rightarrow> effect list \<times> store" where
  "getAllTax st db req =
     (try_findAll db Tax None (\<lambda>taxes. [Send 200 (JArray (map JObject taxes))]), st)"

definition getSingleTax :: "store \<Rightarrow> database \<Rightarrow> request \<Rightarrow> effect list \<times> store" where
  "getSingleTax st db req =
     (let taxId = tax_id (params req)
      in (find_one Tax ''Tax'' taxId db, st))"

section \<open>AttributeController\<close>

definition getAllAttributes :: "store \<Rightarrow> database \<Rightarrow> request \<Rightarrow> effect list \<times> store" where
  "getAllAttributes st db req =
     (try_findAll db Attribute None
        (\<lambda>attributes. [Send 200 (JArray (map JObject attributes))]), st)"

definition getSingleAttribute :: "store \<Rightarrow> database \<Rightarrow> request \<Rightarrow> effect list \<times> store" where
  "getSingleAttribute st db req =
     (let attributeId = attribute_id (params req)
      in (find_one Attribute ''Attribute'' attributeId db, st))"

definition getAttributeValues :: "store \<Rightarrow> database \<Rightarrow> request \<Rightarrow> effect list \<times> store" where
  "getAttributeValues st db req =
     (let attributeId = attribute_id (params req);
          options = Some (no_options\<lparr>opt_include :=
            [Include AttributeValue None []
               (Some [Column ''value'', Column ''attribute_value_id'']) []]\<rparr>)
      in (try_findByPk db Attribute attributeId options
            (\<lambda>found.
               case found of
                 Some attributeValues \<Rightarrow>
                   [Send 200 (get_prop attributeValues ''AttributeValues'')]
               | None \<Rightarrow>
                   [Send 404
                      (not_found (''Attribute with id '' @ attributeId @ '' does not exist''))]),
          st))"

text \<open>
  \<^verbatim>\<open>getProductAttributes\<close> (a stub without a query in the earlier version of the
  controller) destructures every row two levels deep; a row whose
  \<^verbatim>\<open>AttributeValue\<close> or \<^verbatim>\<open>attribute_type\<close> is missing throws inside the \<^verbatim>\<open>try\<close> block.
\<close>

definition attribute_in_product :: "entity \<Rightarrow> error + jsval" where
  "attribute_in_product x =
     (let attribute_value_id = get_prop x ''attribute_value_id'';
          av = get_prop x ''AttributeValue''
      in case read_member av ''value'' of
           Inl e \<Rightarrow> Inl e
         | Inr v \<Rightarrow>
             (case read_member av ''attribute_type'' of
                Inl e \<Rightarrow> Inl e
              | Inr t \<Rightarrow>
                  (case read_member t ''name'' of
                     Inl e \<Rightarrow> Inl e
                   | Inr name \<Rightarrow>
                       Inr (JObject [(''attribute_value_id'', attribute_value_id),
                                     (''attribute_value'', v),
                                     (''attribute_name'', name)]))))"

definition getProductAttributes :: "store \<Rightarrow> database \<Rightarrow> request \<Rightarrow> effect list \<times> store" where
  "getProductAttributes st db req =
     (let productId = product_id (params req);
          options = Some (no_options
            \<lparr>opt_where := [(''product_id'', Equals productId)],
             opt_include :=
               [Include AttributeValue None [] (Some [Column ''value''])
                  [Include Attribute (Some ''attribute_type'') [] (Some [Column ''name'']) []]],
             opt_attributes := Some [Column ''attribute_value_id'']\<rparr>)
      in (try_findAll db ProductAttribute options
            (\<lambda>productAttributes.
               case map_throwing attribute_in_product productAttributes of
                 Inl error \<Rightarrow> [Next error]
               | Inr attInProducts \<Rightarrow> [Send 200 (JArray attInProducts)]),
          st))"

section \<open>All controller methods\<close>

datatype endpoint =
    GetAllProducts | SearchProduct | GetProductsByCategory | GetProductsByDepartment
  | GetProduct | GetAllDepartments | GetDepartment | GetAllCategories | GetSingleCategory
  | GetDepartmentCategories | GetProductCategories | GetProductReviews
  | GetAllTax | GetSingleTax
  | GetAllAttributes | GetSingleAttribute | GetAttributeValues | GetProductAttributes

fun handle :: "endpoint \<Rightarrow> store \<Rightarrow> database \<Rightarrow> request \<Rightarrow> effect list \<times> store" where
  "handle GetAllProducts = getAllProducts"
| "handle SearchProduct = searchProduct"
| "handle GetProductsByCategory = getProductsByCategory"
| "handle GetProductsByDepartment = getProductsByDepartment"
| "handle GetProduct = getProduct"
| "handle GetAllDepartments = getAllDepartments"
| "handle GetDepartment = getDepartment"
| "handle GetAllCategories = getAllCategories"
| "handle GetSingleCategory = getSingleCategory"
| "handle GetDepartmentCategories = getDepartmentCategories"
| "handle GetProductCategories = getProductCategories"
| "handle GetProductReviews = getProductReviews"
| "handle GetAllTax = getAllTax"
| "handle GetSingleTax = getSingleTax"
| "handle GetAllAttributes = getAllAttributes"
| "handle GetSingleAttribute = getSingleAttribute"
| "handle GetAttributeValues = getAttributeValues"
| "handle GetProductAttributes = getProductAttributes"

section \<open>Observing a handled request\<close>

text \<open>The calls to the ORM, and the responses sent, in the order they happen.\<close>

fun queries :: "effect list \<Rightarrow> db_call list" where
  "queries [] = []"
| "queries (Query c # es) = c # queries es"
| "queries (_ # es) = queries es"

fun sent :: "effect list \<Rightarrow> (nat \<times> jsval) list" where
  "sent [] = []"
| "sent (Send n body # es) = (n, body) # sent es"
| "sent (_ # es) = sent es"

definition statuses :: "effect list \<Rightarrow> nat list" where
  "statuses es = map fst (sent es)"

fun forwarded :: "effect list \<Rightarrow> error list" where
  "forwarded [] = []"
| "forwarded (Next e # es) = e # forwarded es"
| "forwarded (_ # es) = forwarded es"

text \<open>The options of a call; a finder called without options reads none.\<close>

fun call_options :: "db_call \<Rightarrow> options" where
  "call_options (FindAll m q) = (case q of None \<Rightarrow> no_options | Some opts \<Rightarrow> opts)"
| "call_options (FindAndCountAll m opts) = opts"
| "call_options (FindByPk m k q) = (case q of None \<Rightarrow> no_options | Some opts \<Rightarrow> opts)"

text \<open>The SQL literals among the attributes of a call, those of its includes as well.\<close>

fun literals :: "attribute list \<Rightarrow> string list" where
  "literals [] = []"
| "literals (Literal sql # xs) = sql # literals xs"
| "literals (Column c # xs) = literals xs"

fun inclusion_literals :: "inclusion \<Rightarrow> string list" where
  "inclusion_literals (Include m a w attrs incs) =
     (case attrs of None \<Rightarrow> [] | Some xs \<Rightarrow> literals xs) @ concat (map inclusion_literals incs)"

definition call_literals :: "db_call \<Rightarrow> string list" where
  "call_literals c =
     (case opt_attributes (call_options c) of None \<Rightarrow> [] | Some xs \<Rightarrow> literals xs)
     @ concat (map inclusion_literals (opt_include (call_options c)))"

text \<open>The keys of a JSON object, in order; a body that is not an object has none.\<close>

fun keys :: "jsval \<Rightarrow> string list option" where
  "keys (JObject kvs) = Some (map fst kvs)"
| "keys _ = None"

fun field :: "jsval \<Rightarrow> string \<Rightarrow> jsval" where
  "field (JObject kvs) k = get_prop kvs k"
| "field _ k = JUndefined"

text \<open>
  A parameter is numeric when \<^verbatim>\<open>Number\<close> of it is a number. It is an integer literal
  when it is a string of decimal digits; \<open>integer_param\<close> is then its value, and the
  default when the parameter is absent.
\<close>

definition numeric :: "string \<Rightarrow> bool" where
  "numeric s = (StringToNumber s \<noteq> NaN)"

definition numeric_or_absent :: "string option \<Rightarrow> bool" where
  "numeric_or_absent p = (case p of None \<Rightarrow> True | Some s \<Rightarrow> numeric s)"


subsection \<open>Databases to run the handlers on\<close>

text \<open>A database where every finder answers from the same rows, and one that is down.\<close>

definition db_of :: "entity list \<Rightarrow> database" where
  "db_of rows =
     \<lparr>findAll = (\<lambda>m q. Inr rows),
      findAndCountAll = (\<lambda>m q. Inr (rows, length rows)),
      findByPk = (\<lambda>m k q. case rows of [] \<Rightarrow> Inr None | x # _ \<Rightarrow> Inr (Some x))\<rparr>"

definition db_down :: database where
  "db_down =
     \<lparr>findAll = (\<lambda>m q. Inl (DatabaseError ''connection refused'')),
      findAndCountAll = (\<lambda>m q. Inl (DatabaseError ''connection refused'')),
      findByPk = (\<lambda>m k q. Inl (DatabaseError ''connection refused''))\<rparr>"

definition a_query :: query_params where
  "a_query =
     \<lparr>page = None, limit = None, description_length = None, query_string = None,
      all_words = None\<rparr>"

definition a_request :: request where
  "a_request =
     \<lparr>query = a_query,
      params = \<lparr>product_id = ''7'', category_id = ''3'', department_id = ''2'', tax_id = ''1'',
                attribute_id = ''4''\<rparr>\<rparr>"

subsection \<open>A database of products\<close>









section \<open>Rounding\<close>

text \<open>
  Facts about \<open>round_double\<close>: the exponent found brackets the number, an integer
  below \<open>2 ^ 53\<close> is a double, and the ceiling of a rounded quotient of two such
  integers is the ceiling of the exact quotient.
\<close>

lemma bitlen_pos: "0 < n \<Longrightarrow> 0 < bitlen n"
  using bitlen_bounds [of n] bitlen_nonneg [of n]
  by (cases "bitlen n = 0") auto

lemma pow2_bitlen:
  assumes "0 < (n::int)"
  shows "2 powi (bitlen n - 1) \<le> (of_int n :: rat)" and "(of_int n :: rat) < 2 powi bitlen n"
proof -
  from bitlen_pos [OF assms] have b: "int (nat (bitlen n - 1)) = bitlen n - 1"
    "int (nat (bitlen n)) = bitlen n"
    by simp_all
  from bitlen_bounds [OF assms]
  have 1: "(2::int) ^ nat (bitlen n - 1) \<le> n" and 2: "n < 2 ^ nat (bitlen n)"
    by simp_all
  from 1 have "(of_int ((2::int) ^ nat (bitlen n - 1)) :: rat) \<le> of_int n"
    by (simp only: of_int_le_iff)
  then have "(2::rat) ^ nat (bitlen n - 1) \<le> of_int n"
    by simp
  then show "2 powi (bitlen n - 1) \<le> (of_int n :: rat)"
    using power_int_of_nat [of "2::rat" "nat (bitlen n - 1)"] b(1) by simp
  from 2 have "(of_int n :: rat) < of_int ((2::int) ^ nat (bitlen n))"
    by (simp only: of_int_less_iff)
  then have "(of_int n :: rat) < 2 ^ nat (bitlen n)"
    by simp
  then show "(of_int n :: rat) < 2 powi bitlen n"
    using power_int_of_nat [of "2::rat" "nat (bitlen n)"] b(2) by simp
qed

lemma pow2_diff: "(2::rat) powi a / 2 powi b = 2 powi (a - b)"
  by (simp add: power_int_diff)

lemma floor_log2_bounds:
  assumes "0 < a"
  shows "2 powi floor_log2 a \<le> a" and "a < 2 powi (floor_log2 a + 1)"
proof -
  obtain n d where q: "quotient_of a = (n, d)"
    by (cases "quotient_of a")
  then have d: "0 < d" and a: "a = of_int n / of_int d"
    by (simp_all add: quotient_of_denom_pos quotient_of_div)
  with assms have n: "0 < n"
    by (simp add: zero_less_divide_iff)
  define e where "e = bitlen n - bitlen d"
  note bn = pow2_bitlen [OF n] and bd = pow2_bitlen [OF d]
  have dpos: "(0::rat) < of_int d"
    using d by simp
  have "a < (2::rat) powi bitlen n / 2 powi (bitlen d - 1)"
  proof -
    have "a < 2 powi bitlen n / of_int d"
      unfolding a using bn(2) dpos by (simp add: divide_strict_right_mono)
    also have "\<dots> \<le> 2 powi bitlen n / 2 powi (bitlen d - 1)"
      using bd(1) by (simp add: frac_le)
    finally show ?thesis .
  qed
  also have "\<dots> = 2 powi (bitlen n - (bitlen d - 1))"
    by (rule pow2_diff)
  also have "bitlen n - (bitlen d - 1) = e + 1"
    by (simp add: e_def)
  finally have up: "a < 2 powi (e + 1)" .
  have "(2::rat) powi (bitlen n - 1) / 2 powi bitlen d < a"
  proof -
    have "(2::rat) powi (bitlen n - 1) / 2 powi bitlen d < 2 powi (bitlen n - 1) / of_int d"
      using bd(2) dpos by (intro divide_strict_left_mono) simp_all
    also have "\<dots> \<le> a"
      unfolding a using bn(1) dpos by (simp add: divide_right_mono)
    finally show ?thesis .
  qed
  moreover have "bitlen n - 1 - bitlen d = e - 1"
    by (simp add: e_def)
  then have "2 powi (bitlen n - 1) / 2 powi bitlen d = (2::rat) powi (e - 1)"
    by (simp only: pow2_diff)
  ultimately have low: "2 powi (e - 1) < a"
    by simp
  have f: "floor_log2 a = (if a < 2 powi e then e - 1 else e)"
    by (simp add: floor_log2_def q e_def Let_def)
  show "2 powi floor_log2 a \<le> a"
    using low by (simp add: f)
  show "a < 2 powi (floor_log2 a + 1)"
    using up by (simp add: f)
qed

lemma round_half_even_of_int [simp]: "round_half_even (of_int k) = k"
  by (simp add: round_half_even_def)

lemma round_half_even_ge_floor: "\<lfloor>y\<rfloor> \<le> round_half_even y"
  by (simp add: round_half_even_def Let_def)

lemma round_half_even_le_ceiling: "round_half_even y \<le> \<lceil>y\<rceil>"
proof (cases "y = of_int \<lfloor>y\<rfloor>")
  case True
  then have "round_half_even y = \<lfloor>y\<rfloor>"
    by (metis round_half_even_of_int)
  then show ?thesis
    by (simp add: floor_le_ceiling)
next
  case False
  then have "\<lceil>y\<rceil> = \<lfloor>y\<rfloor> + 1"
    by (metis ceiling_altdef)
  then show ?thesis
    by (simp add: round_half_even_def Let_def)
qed


lemma pow2_mono: "a \<le> b \<Longrightarrow> (2::rat) powi a \<le> 2 powi b"
  by (rule power_int_increasing) simp_all

lemma pow2_less_exp: "(2::rat) powi a < 2 powi b \<Longrightarrow> a < b"
  using pow2_mono [of b a] by (cases "a < b") auto

lemma round_double_normal:
  assumes "0 < a" and "- 1022 \<le> floor_log2 a" and "floor_log2 a \<le> 1022"
  defines "p \<equiv> floor_log2 a - 52"
  shows "round_double a = Fin (of_int (round_half_even (a / 2 powi p)) * 2 powi p)"
    and "round_double (- a) = Fin (- (of_int (round_half_even (a / 2 powi p)) * 2 powi p))"
    and "2 ^ 52 \<le> round_half_even (a / 2 powi p)"
proof -
  define y where "y = a / 2 powi p"
  define m where "m = round_half_even y"
  have pp: "(0::rat) < 2 powi p"
    by simp
  have mx: "max (floor_log2 a - 52) (- 1074) = p"
    using assms(2) by (simp add: p_def)
  have "2 powi floor_log2 a / 2 powi p \<le> y"
    unfolding y_def using floor_log2_bounds(1) [OF assms(1)] pp by (simp add: divide_right_mono)
  moreover have "floor_log2 a - p = 52"
    by (simp add: p_def)
  ultimately have ylow: "2 ^ 52 \<le> y"
    by (simp add: pow2_diff)
  have "y < 2 powi (floor_log2 a + 1) / 2 powi p"
    unfolding y_def using floor_log2_bounds(2) [OF assms(1)] pp
    by (simp add: divide_strict_right_mono)
  moreover have "floor_log2 a + 1 - p = 53"
    by (simp add: p_def)
  ultimately have yup: "y < 2 ^ 53"
    by (simp add: pow2_diff)
  have "of_int ((2::int) ^ 52) \<le> y"
    using ylow by simp
  then have "(2::int) ^ 52 \<le> \<lfloor>y\<rfloor>"
    by (simp only: le_floor_iff)
  from order_trans [OF this round_half_even_ge_floor]
  show mlow: "2 ^ 52 \<le> round_half_even (a / 2 powi p)"
    unfolding y_def .
  have "y \<le> of_int ((2::int) ^ 53)"
    using yup by simp
  then have "\<lceil>y\<rceil> \<le> (2::int) ^ 53"
    by (simp only: ceiling_le_iff)
  from order_trans [OF round_half_even_le_ceiling this]
  have mup: "m \<le> 2 ^ 53"
    unfolding m_def .
  have "rat_of_int m \<le> of_int ((2::int) ^ 53)"
    using mup by (simp only: of_int_le_iff)
  then have "rat_of_int m \<le> 2 ^ 53"
    by simp
  then have "of_int m * 2 powi p \<le> (2::rat) ^ 53 * 2 powi p"
    using pp by (intro mult_right_mono) simp_all
  also have "\<dots> = 2 powi (53 + p)"
    by (simp add: power_int_add)
  also have "\<dots> \<le> 2 powi 1023"
    using assms(3) by (intro pow2_mono) (simp add: p_def)
  also have "\<dots> < 2 powi 1024"
    by (intro power_int_strict_increasing) simp_all
  finally have small: "\<not> 2 powi 1024 \<le> rat_of_int m * 2 powi p" 
    by simp
  have "(0::int) < 2 ^ 52"
    by simp
  with mlow have m0: "m \<noteq> 0"
    unfolding m_def y_def by linarith
  have a0: "a \<noteq> 0" "\<not> a < 0" "\<bar>a\<bar> = a"
    using assms(1) by simp_all
  show "round_double a = Fin (of_int (round_half_even (a / 2 powi p)) * 2 powi p)"
    using small m0 a0 by (simp add: round_double_def Let_def mx m_def y_def)
  show "round_double (- a) = Fin (- (of_int (round_half_even (a / 2 powi p)) * 2 powi p))"
    using small m0 a0 assms(1) by (simp add: round_double_def Let_def mx m_def y_def)
qed

lemma round_double_nat:
  assumes "n < 2 ^ 53"
  shows "round_double (of_nat n) = Fin (of_nat n)"
    and "round_double (- of_nat n) = (if n = 0 then Fin 0 else Fin (- of_nat n))"
proof -
  have "round_double (of_nat n) = Fin (of_nat n)
      \<and> round_double (- of_nat n) = (if n = 0 then Fin 0 else Fin (- of_nat n))"
  proof (cases "n = 0")
    case True
    then show ?thesis by (simp add: round_double_def)
  next
    case False
    define a :: rat where "a = of_nat n"
    define e where "e = floor_log2 a"
    have apos: "0 < a" and a1: "1 \<le> a"
      using False by (simp_all add: a_def)
    have "a < 2 ^ 53"
      using assms unfolding a_def by (metis of_nat_less_numeral_power_cancel_iff)
    then have "2 powi e < (2::rat) powi 53"
      using floor_log2_bounds(1) [OF apos] by (simp add: e_def)
    then have e53: "e < 53"
      by (rule pow2_less_exp)
    have "(2::rat) powi 0 < 2 powi (e + 1)"
      using floor_log2_bounds(2) [OF apos] a1 by (simp add: e_def)
    then have e0: "0 \<le> e"
      using pow2_less_exp [of 0 "e + 1"] by simp
    define N where "N = nat (52 - e)"
    have p: "e - 52 = - int N"
      using e53 by (simp add: N_def)
    have y: "a / 2 powi (e - 52) = of_int (int n * 2 ^ N)"
      unfolding p by (simp add: power_int_minus a_def field_simps)
    have r: "of_int (round_half_even (a / 2 powi (e - 52))) * 2 powi (e - 52) = a"
      unfolding y round_half_even_of_int unfolding p
      by (simp add: power_int_minus a_def field_simps)
    have "- 1022 \<le> floor_log2 a" "floor_log2 a \<le> 1022"
      using e0 e53 by (simp_all add: e_def)
    from round_double_normal(1,2) [OF apos this] r False
    show ?thesis
      by (simp add: e_def a_def)
  qed
  then show "round_double (of_nat n) = Fin (of_nat n)"
    and "round_double (- of_nat n) = (if n = 0 then Fin 0 else Fin (- of_nat n))"
    by simp_all
qed



section \<open>Decimal integer literals\<close>

text \<open>
  On a string of decimal digits \<^verbatim>\<open>Number\<close> and \<^verbatim>\<open>parseInt\<close> agree: both give the value
  of the digits.
\<close>

lemma isDigit10_iff: "isDigit 10 c \<longleftrightarrow> c \<in> set ''0123456789''"
  by (simp add: isDigit_def hexDigit_def)

lemma digit_not_special:
  assumes "isDigit 10 c"
  shows "\<not> isWhiteSpace c" "c \<noteq> CHR ''+''" "c \<noteq> CHR ''-''" "c \<noteq> CHR ''.''"
    "c \<noteq> CHR ''x''" "c \<noteq> CHR ''X''" "c \<noteq> CHR ''o''" "c \<noteq> CHR ''O''"
    "c \<noteq> CHR ''b''" "c \<noteq> CHR ''B''" "c \<noteq> CHR ''I''"
  using assms by (auto simp: isDigit10_iff isWhiteSpace_def)

lemma allDigits_takeWhile: "list_all (isDigit 10) s \<Longrightarrow> takeWhile (isDigit 10) s = s"
  by (induction s) auto

lemma allDigits_dropWhile: "list_all (isDigit 10) s \<Longrightarrow> dropWhile (isDigit 10) s = []"
  by (induction s) auto

lemma dropWhile_hd_self: "xs \<noteq> [] \<Longrightarrow> \<not> P (hd xs) \<Longrightarrow> dropWhile P xs = xs"
  by (cases xs) simp_all

lemma allDigits_trim:
  assumes "allDigits 10 s"
  shows "trim s = s"
proof -
  have ne: "s \<noteq> []" and a: "list_all (isDigit 10) s"
    using assms by (simp_all add: allDigits_def)
  have "isDigit 10 (hd s)"
    using ne a by (cases s) simp_all
  then have 1: "dropWhile isWhiteSpace s = s"
    using ne digit_not_special(1) by (simp add: dropWhile_hd_self)
  have "last s \<in> set s"
    using ne by simp
  then have "isDigit 10 (last s)"
    using a by (simp add: list_all_iff)
  then have "\<not> isWhiteSpace (hd (rev s))"
    using ne digit_not_special(1) by (simp add: hd_rev)
  then have 2: "dropWhile isWhiteSpace (rev s) = rev s"
    using ne by (simp add: dropWhile_hd_self)
  show ?thesis
    by (simp add: trim_def 1 2)
qed

lemma allDigits_radixOfPrefix:
  assumes "allDigits 10 s"
  shows "radixOfPrefix s = None"
proof (cases s)
  case Nil
  then show ?thesis by (simp add: radixOfPrefix_def)
next
  case outer: (Cons c r)
  show ?thesis
  proof (cases r)
    case Nil
    with outer show ?thesis by (simp add: radixOfPrefix_def)
  next
    case (Cons x t)
    have "isDigit 10 x"
      using assms outer Cons by (simp add: allDigits_def)
    then have "x \<in> set ''0123456789''"
      by (simp only: isDigit10_iff)
    then have "x \<noteq> CHR ''x'' \<and> x \<noteq> CHR ''X'' \<and> x \<noteq> CHR ''o'' \<and> x \<noteq> CHR ''O''
        \<and> x \<noteq> CHR ''b'' \<and> x \<noteq> CHR ''B''"
      by auto
    with outer Cons show ?thesis by (simp add: radixOfPrefix_def)
  qed
qed

lemma allDigits_unsignedDecimal:
  assumes "allDigits 10 s"
  shows "unsignedDecimal s = round_double (of_nat (digitsValue 10 s))"
proof -
  have a: "list_all (isDigit 10) s" and ne: "s \<noteq> []"
    using assms by (auto simp: allDigits_def)
  have "s \<noteq> ''Infinity''"
    using a by (auto simp: isDigit10_iff)
  then show ?thesis
    using ne by (simp add: unsignedDecimal_def allDigits_takeWhile[OF a]
        allDigits_dropWhile[OF a] exponentPart_def scale10_def)
qed

lemma allDigits_StringToNumber:
  assumes "allDigits 10 s"
  shows "StringToNumber s = round_double (of_nat (digitsValue 10 s))"
proof -
  from assms obtain c r where s: "s = c # r" and c: "isDigit 10 c"
    by (cases s) (auto simp: allDigits_def)
  have h: "hd s \<noteq> CHR ''+''" "hd s \<noteq> CHR ''-''" and ne: "s \<noteq> []"
    using s c digit_not_special by auto
  show ?thesis
    unfolding StringToNumber_def Let_def allDigits_trim[OF assms]
    using h ne
    by (simp add: allDigits_radixOfPrefix[OF assms] allDigits_unsignedDecimal[OF assms])
qed

lemma allDigits_parseInt10:
  assumes "allDigits 10 s"
  shows "parseInt10 s = round_double (of_nat (digitsValue 10 s))"
proof -
  from assms obtain c r where s: "s = c # r" and c: "isDigit 10 c"
    by (cases s) (auto simp: allDigits_def)
  have a: "list_all (isDigit 10) s" and ne: "s \<noteq> []"
    using assms by (auto simp: allDigits_def)
  have d: "dropWhile isWhiteSpace s = s"
    using s c digit_not_special(1) by simp
  have h: "hd s \<noteq> CHR ''+''" "hd s \<noteq> CHR ''-''"
    using s c digit_not_special by auto
  show ?thesis
    unfolding parseInt10_def Let_def d
    using h ne by (simp add: allDigits_takeWhile[OF a])
qed

lemma safe_StringToNumber:
  assumes "allDigits 10 s" and "digitsValue 10 s < 2 ^ 53"
  shows "StringToNumber s = Fin (of_nat (digitsValue 10 s))"
  by (simp only: allDigits_StringToNumber [OF assms(1)] round_double_nat(1) [OF assms(2)])

lemma safe_parseInt10:
  assumes "allDigits 10 s" and "digitsValue 10 s < 2 ^ 53"
  shows "parseInt10 s = Fin (of_nat (digitsValue 10 s))"
  by (simp only: allDigits_parseInt10 [OF assms(1)] round_double_nat(1) [OF assms(2)])

section \<open>The validation guard\<close>

lemma StringToNumber_empty: "StringToNumber [] = Fin 0"
  by (simp add: StringToNumber_def trim_def)

lemma isNaN_Num: "\<not> isNaN (Num n)"
  by (simp add: isNaN_def)

lemma isNaN_Undefined: "isNaN Undefined"
  by (simp add: isNaN_def)


lemma isNaN_js_or:
  "0 < n \<Longrightarrow> isNaN (js_or (param p) (Num n)) \<longleftrightarrow> \<not> numeric_or_absent p"
proof (cases p)
  case None
  then show ?thesis by (simp add: js_or_def isNaN_def numeric_or_absent_def)
next
  case (Some s)
  show ?thesis
  proof (cases "s = []")
    case True
    with Some show ?thesis
      by (simp add: js_or_def isNaN_def numeric_or_absent_def numeric_def StringToNumber_empty)
  next
    case False
    with Some show ?thesis
      by (simp add: js_or_def isNaN_def numeric_or_absent_def numeric_def)
  qed
qed

lemma isNaN_default_to: "isNaN (default_to (param p) (Num n)) \<longleftrightarrow> \<not> numeric_or_absent p"
  by (cases p) (simp_all add: isNaN_def numeric_or_absent_def numeric_def)

section \<open>Errors thrown by the database\<close>

lemma try_findAll_thrown:
  assumes "Query call \<in> set (try_findAll db m q rest)" and "thrown db call = Some e"
    and "\<And>xs. Query call \<notin> set (rest xs)"
  shows "try_findAll db m q rest = [Query call, Next e]"
  using assms by (auto simp: try_findAll_def split: sum.splits)

lemma try_findAndCountAll_thrown:
  assumes "Query call \<in> set (try_findAndCountAll db m q rest)" and "thrown db call = Some e"
    and "\<And>r. Query call \<notin> set (rest r)"
  shows "try_findAndCountAll db m q rest = [Query call, Next e]"
  using assms by (auto simp: try_findAndCountAll_def split: sum.splits)

lemma try_findByPk_thrown:
  assumes "Query call \<in> set (try_findByPk db m k q rest)" and "thrown db call = Some e"
    and "\<And>x. Query call \<notin> set (rest x)"
  shows "try_findByPk db m k q rest = [Query call, Next e]"
  using assms by (auto simp: try_findByPk_def split: sum.splits)

lemma find_one_forwards:
  assumes "Query call \<in> set (find_one m kind ident db)" and "thrown db call = Some e"
  shows "find_one m kind ident db = [Query call, Next e]"
  using assms unfolding find_one_def
  by (rule try_findByPk_thrown) (simp split: option.splits)

lemma getAllProducts_forwards:
  assumes "Query call \<in> set (fst (getAllProducts st db req))" and "thrown db call = Some e"
  shows "fst (getAllProducts st db req) = [Query call, Next e]"
proof (cases "fst (getAllProducts st db req) = [Send 400 invalid_query]")
  case True
  with assms show ?thesis by simp
next
  case False
  then obtain q rest where *: "fst (getAllProducts st db req) = try_findAndCountAll db Product q (\<lambda>(rows, count). [Send 200 (rest rows count)])"
    by (auto simp: getAllProducts_def Let_def split: if_splits)
  show ?thesis
    using assms unfolding *
    by (rule try_findAndCountAll_thrown) (simp split: prod.splits)
qed

lemma searchProduct_forwards:
  assumes "Query call \<in> set (fst (searchProduct st db req))" and "thrown db call = Some e"
  shows "fst (searchProduct st db req) = [Query call, Next e]"
proof (cases "fst (searchProduct st db req) = [Send 400 invalid_query]")
  case True
  with assms show ?thesis by simp
next
  case False
  then obtain q where *: "fst (searchProduct st db req)
      = try_findAll db Product q (\<lambda>product. [Send 200 (JArray (map JObject product))])"
    by (auto simp: searchProduct_def Let_def concat_array_def split: if_splits)
  show ?thesis
    using assms unfolding * by (rule try_findAll_thrown) simp
qed

lemma getProductsByCategory_forwards:
  assumes "Query call \<in> set (fst (getProductsByCategory st db req))" and "thrown db call = Some e"
  shows "fst (getProductsByCategory st db req) = [Query call, Next e]"
proof (cases "fst (getProductsByCategory st db req) = [Send 400 invalid_query]")
  case True
  with assms show ?thesis by simp
next
  case False
  then obtain q where *: "fst (getProductsByCategory st db req)
      = try_findAll db ProductCategory q
          (\<lambda>products. [Send 200 (JObject [(''rows'', JArray (map (\<lambda>x. get_prop x ''product'') products))])])"
    by (auto simp: getProductsByCategory_def Let_def split: if_splits)
  show ?thesis
    using assms unfolding * by (rule try_findAll_thrown) simp
qed

lemma getProductsByDepartment_forwards:
  assumes "Query call \<in> set (fst (getProductsByDepartment st db req))" and "thrown db call = Some e"
  shows "fst (getProductsByDepartment st db req) = [Query call, Next e]"
proof (cases "fst (getProductsByDepartment st db req) = [Send 400 invalid_query]")
  case True
  with assms show ?thesis by simp
next
  case False
  then obtain q where *: "fst (getProductsByDepartment st db req)
      = try_findAll db ProductCategory q
          (\<lambda>products. [Send 200 (JObject [(''rows'', JArray (map (\<lambda>x. get_prop x ''product'') products))])])"
    by (auto simp: getProductsByDepartment_def Let_def split: if_splits)
  show ?thesis
    using assms unfolding * by (rule try_findAll_thrown) simp
qed

lemma getProduct_forwards:
  assumes "Query call \<in> set (fst (getProduct st db req))" and "thrown db call = Some e"
  shows "fst (getProduct st db req) = [Query call, Next e]"
  using assms
  by (auto simp: getProduct_def Let_def concat_array_def try_findByPk_def
      split: if_splits sum.splits option.splits)

lemma simple_forwards:
  assumes "thrown db call = Some e"
  shows "Query call \<in> set (fst (getAllDepartments st db req)) \<Longrightarrow> fst (getAllDepartments st db req) = [Query call, Next e]"
    "Query call \<in> set (fst (getAllCategories st db req)) \<Longrightarrow> fst (getAllCategories st db req) = [Query call, Next e]"
    "Query call \<in> set (fst (getDepartmentCategories st db req)) \<Longrightarrow> fst (getDepartmentCategories st db req) = [Query call, Next e]"
    "Query call \<in> set (fst (getProductCategories st db req)) \<Longrightarrow> fst (getProductCategories st db req) = [Query call, Next e]"
    "Query call \<in> set (fst (getAllTax st db req)) \<Longrightarrow> fst (getAllTax st db req) = [Query call, Next e]"
    "Query call \<in> set (fst (getAllAttributes st db req)) \<Longrightarrow> fst (getAllAttributes st db req) = [Query call, Next e]"
    "Query call \<in> set (fst (getAttributeValues st db req)) \<Longrightarrow> fst (getAttributeValues st db req) = [Query call, Next e]"
    "Query call \<in> set (fst (getProductReviews st db req)) \<Longrightarrow> fst (getProductReviews st db req) = [Query call, Next e]"
    "Query call \<in> set (fst (getProductAttributes st db req)) \<Longrightarrow> fst (getProductAttributes st db req) = [Query call, Next e]"
  using assms
  by (auto simp: getAllDepartments_def getAllCategories_def getDepartmentCategories_def
      getProductCategories_def getAllTax_def getAllAttributes_def getAttributeValues_def
      getProductReviews_def getProductAttributes_def Let_def try_findAll_def try_findByPk_def
      split: if_splits sum.splits option.splits)

text \<open>
  Claim C8. In every controller method, when the call to the ORM throws, the handler
  does exactly two things: the call, and \<^verbatim>\<open>next(error)\<close> with the error thrown. It
  calls \<^verbatim>\<open>next\<close> once and sends no response, so no thrown error becomes a 200, 400 or
  404 body.
\<close>

theorem thrown_error_forwarded_once:
  assumes "Query call \<in> set (fst (handle ep st db req))" and "thrown db call = Some e"
  shows "fst (handle ep st db req) = [Query call, Next e]
    \<and> forwarded (fst (handle ep st db req)) = [e] \<and> sent (fst (handle ep st db req)) = []"
proof -
  have "fst (handle ep st db req) = [Query call, Next e]"
    using assms
    by (cases ep)
      (simp_all add: getAllProducts_forwards searchProduct_forwards getProductsByCategory_forwards
        getProductsByDepartment_forwards getProduct_forwards simple_forwards find_one_forwards
        getDepartment_def getSingleCategory_def getSingleTax_def getSingleAttribute_def Let_def)
  then show ?thesis by simp
qed

theorem thrown_error_forwarded_once_witness:
  "fst (handle GetAllTax initial_store db_down a_request)
     = [Query (FindAll Tax None), Next (DatabaseError ''connection refused'')]
   \<and> forwarded (fst (handle GetAllTax initial_store db_down a_request))
     = [DatabaseError ''connection refused'']
   \<and> sent (fst (handle GetAllTax initial_store db_down a_request)) = []"
proof -
  have q: "Query (FindAll Tax None) \<in> set (fst (handle GetAllTax initial_store db_down a_request))"
    by (simp add: getAllTax_def try_findAll_def db_down_def)
  have t: "thrown db_down (FindAll Tax None) = Some (DatabaseError ''connection refused'')"
    by (simp add: db_down_def)
  show ?thesis
    using thrown_error_forwarded_once [OF q t] .
qed

section \<open>The query each validated handler issues\<close>

lemma decimal_defaults: "decimal 200 = ''200''" "decimal 20 = ''20''" "decimal 1 = ''1''"
  by code_simp+

lemmas digit_simps = allDigits_def isDigit_def hexDigit_def digitsValue_def digitValue_def


lemma literals_append: "literals (xs @ ys) = literals xs @ literals ys"
  by (induction xs rule: literals.induct) simp_all


lemma searchProduct_issues:
  fixes req :: request
  defines "P \<equiv> js_or (param (page (query req))) (Num 1)"
    and "L \<equiv> js_or (param (limit (query req))) (Num 20)"
    and "D \<equiv> js_or (default_to (param (description_length (query req))) (Num 200)) (Num 200)"
    and "text \<equiv> ToString (param (query_string (query req)))"
  assumes "numeric_or_absent (page (query req))" and "numeric_or_absent (limit (query req))"
    and "numeric_or_absent (description_length (query req))"
  shows "fst (searchProduct st db req)
    = try_findAll db Product
        (Some \<lparr>opt_attributes = Some (heap st ProductsQueryMapAttributes
                  @ [Literal (''SUBSTRING(description, 1, '' @ ToString D @ '') as description'')]),
               opt_limit = Some (parseInt L),
               opt_offset = Some (js_mul (js_sub (ToNumber P) (Fin 1)) (ToNumber L)),
               opt_where = [(''name'',
                  if all_words (query req) = Some ''on'' then OpEq text else OpSubstring text)],
               opt_include = []\<rparr>)
        (\<lambda>product. [Send 200 (JArray (map JObject product))])"
proof -
  have "param (all_words (query req)) = Str ''on'' \<longleftrightarrow> all_words (query req) = Some ''on''"
    by (cases "all_words (query req)") simp_all
  then show ?thesis
    using assms
    by (simp add: searchProduct_def Let_def isNaN_js_or isNaN_default_to concat_array_def
        snapshot_def Object_assign_empty_def productsQueryMap_def del: ToString.simps)
qed

lemma getProductsByCategory_issues:
  fixes req :: request
  defines "P \<equiv> default_to (param (page (query req))) (Num 1)"
    and "L \<equiv> default_to (param (limit (query req))) (Num 20)"
    and "D \<equiv> js_or (default_to (param (description_length (query req))) (Num 200)) (Num 200)"
  assumes "numeric_or_absent (page (query req))" and "numeric_or_absent (limit (query req))"
    and "numeric_or_absent (description_length (query req))"
  shows "fst (getProductsByCategory st db req)
    = try_findAll db ProductCategory
        (Some \<lparr>opt_attributes = None,
               opt_limit = Some (if truthy L then parseInt L else Fin 20),
               opt_offset = Some (js_mul (js_sub (ToNumber (js_or P (Num 1))) (Fin 1))
                                   (ToNumber (js_or L (Num 20)))),
               opt_where = [(''category_id'', Equals (category_id (params req)))],
               opt_include =
                 [Include Product (Some ''product'') []
                    (Some (heap st ProductsQueryMapAttributes
                       @ [Literal (''SUBSTRING(description, 1, '' @ ToString D
                            @ '') as description'')])) []]\<rparr>)
        (\<lambda>products. [Send 200 (JObject [(''rows'', JArray (map (\<lambda>x. get_prop x ''product'') products))])])"
  using assms
  by (simp add: getProductsByCategory_def Let_def isNaN_default_to productsQueryMap_def
      del: ToString.simps)

lemma getProductsByDepartment_issues:
  fixes req :: request
  defines "P \<equiv> default_to (param (page (query req))) (Num 1)"
    and "L \<equiv> default_to (param (limit (query req))) (Num 20)"
    and "D \<equiv> js_or (default_to (param (description_length (query req))) (Num 200)) (Num 200)"
  assumes "numeric_or_absent (page (query req))" and "numeric_or_absent (limit (query req))"
    and "numeric_or_absent (description_length (query req))"
  shows "fst (getProductsByDepartment st db req)
    = try_findAll db ProductCategory
        (Some \<lparr>opt_attributes = Some [],
               opt_limit = Some (if truthy L then parseInt L else Fin 20),
               opt_offset = Some (js_mul (js_sub (ToNumber (js_or P (Num 1))) (Fin 1))
                                   (ToNumber (js_or L (Num 20)))),
               opt_where = [],
               opt_include =
                 [Include Category None [(''department_id'', Equals (department_id (params req)))]
                    (Some []) [],
                  Include Product (Some ''product'') []
                    (Some (heap st ProductsQueryMapAttributes
                       @ [Literal (''SUBSTRING(product.description, 1, '' @ ToString D
                            @ '') as description'')])) []]\<rparr>)
        (\<lambda>products. [Send 200 (JObject [(''rows'', JArray (map (\<lambda>x. get_prop x ''product'') products))])])"
  using assms
  by (simp add: getProductsByDepartment_def Let_def isNaN_default_to productsQueryMap_def
      del: ToString.simps)

lemma getProduct_issues:
  fixes req :: request
  defines "D \<equiv> default_to (param (description_length (query req))) (Num 200)"
  assumes "numeric_or_absent (description_length (query req))"
  shows "fst (getProduct st db req)
    = try_findByPk db Product (product_id (params req))
        (Some \<lparr>opt_attributes = Some (heap st ProductsQueryMapAttributes
                  @ [Column ''image'', Column ''display'', Column ''image_2'',
                     Literal (''SUBSTRING(description, 1, '' @ ToString D @ '') as description'')]),
               opt_limit = None, opt_offset = None, opt_where = [], opt_include = []\<rparr>)
        (\<lambda>product. case product of
            Some p \<Rightarrow> [Send 200 (JObject p)]
          | None \<Rightarrow> [Send 404 (not_found (''Product with id '' @ product_id (params req)
               @ '' does not exist''))])"
  using assms
  by (simp add: getProduct_def Let_def isNaN_default_to concat_array_def
      snapshot_def Object_assign_empty_def productsQueryMap_def del: ToString.simps
      cong: option.case_cong)

section \<open>The default of \<^verbatim>\<open>description_length\<close>\<close>

lemma thrown_findAll_None: "thrown db (FindAll m q) = None \<longleftrightarrow> (\<exists>xs. findAll db m q = Inr xs)"
  by (cases "findAll db m q") simp_all

lemma thrown_findByPk_None: "thrown db (FindByPk m k q) = None \<longleftrightarrow> (\<exists>x. findByPk db m k q = Inr x)"
  by (cases "findByPk db m k q") simp_all

lemma getAllProducts_needs_description_length:
  "description_length (query req) = None \<Longrightarrow> fst (getAllProducts st db req) = [Send 400 invalid_query]"
  by (simp add: getAllProducts_def Let_def isNaN_Undefined)

lemma absent_default_200:
  "description_length (query req) = None \<Longrightarrow>
   ToString (js_or (default_to (param (description_length (query req))) (Num 200)) (Num 200)) = ''200''"
  "description_length (query req) = None \<Longrightarrow>
   ToString (default_to (param (description_length (query req))) (Num 200)) = ''200''"
  by (simp_all add: js_or_def decimal_defaults)

lemma numeric_or_absent_None: "p = None \<Longrightarrow> numeric_or_absent p"
  by (simp add: numeric_or_absent_def)

lemma searchProduct_default_length:
  assumes "description_length (query req) = None"
    and "numeric_or_absent (page (query req))" and "numeric_or_absent (limit (query req))"
  shows "\<exists>call rest. fst (searchProduct st db req) = Query call # rest
    \<and> ''SUBSTRING(description, 1, 200) as description'' \<in> set (call_literals call)
    \<and> (thrown db call = None \<longrightarrow> statuses rest = [200])"
  unfolding searchProduct_issues [OF assms(2,3) numeric_or_absent_None [OF assms(1)]]
    absent_default_200 [OF assms(1)] try_findAll_def
  by (auto simp: call_literals_def literals_append statuses_def split: sum.splits)

lemma getProductsByCategory_default_length:
  assumes "description_length (query req) = None"
    and "numeric_or_absent (page (query req))" and "numeric_or_absent (limit (query req))"
  shows "\<exists>call rest. fst (getProductsByCategory st db req) = Query call # rest
    \<and> ''SUBSTRING(description, 1, 200) as description'' \<in> set (call_literals call)
    \<and> (thrown db call = None \<longrightarrow> statuses rest = [200])"
  unfolding getProductsByCategory_issues [OF assms(2,3) numeric_or_absent_None [OF assms(1)]]
    absent_default_200 [OF assms(1)] try_findAll_def
  by (auto simp: call_literals_def literals_append statuses_def split: sum.splits)

lemma getProductsByDepartment_default_length:
  assumes "description_length (query req) = None"
    and "numeric_or_absent (page (query req))" and "numeric_or_absent (limit (query req))"
  shows "\<exists>call rest. fst (getProductsByDepartment st db req) = Query call # rest
    \<and> ''SUBSTRING(product.description, 1, 200) as description'' \<in> set (call_literals call)
    \<and> (thrown db call = None \<longrightarrow> statuses rest = [200])"
  unfolding getProductsByDepartment_issues [OF assms(2,3) numeric_or_absent_None [OF assms(1)]]
    absent_default_200 [OF assms(1)] try_findAll_def
  by (auto simp: call_literals_def literals_append statuses_def split: sum.splits)

lemma getProduct_default_length:
  assumes "description_length (query req) = None"
  shows "\<exists>call rest. fst (getProduct st db req) = Query call # rest
    \<and> ''SUBSTRING(description, 1, 200) as description'' \<in> set (call_literals call)
    \<and> (thrown db call = None \<longrightarrow> statuses rest = [200] \<or> statuses rest = [404])"
  unfolding getProduct_issues [OF numeric_or_absent_None [OF assms(1)]]
    absent_default_200 [OF assms(1)] try_findByPk_def
  by (auto simp: call_literals_def literals_append statuses_def split: sum.splits option.splits)

text \<open>
  Claim C9. \<^verbatim>\<open>getAllProducts\<close> answers 400 whenever \<^verbatim>\<open>description_length\<close> is omitted,
  whatever \<^verbatim>\<open>page\<close> and \<^verbatim>\<open>limit\<close> are. In \<^verbatim>\<open>searchProduct\<close>, \<^verbatim>\<open>getProductsByCategory\<close>,
  \<^verbatim>\<open>getProductsByDepartment\<close> and \<^verbatim>\<open>getProduct\<close> the omitted parameter defaults to 200:
  with \<^verbatim>\<open>page\<close> and \<^verbatim>\<open>limit\<close> absent or numeric, the finder is called with the literal
  for 200 characters, and when the database answers the response is 200 (for
  \<^verbatim>\<open>getProduct\<close>, 200 or the 404 of a missing product).
\<close>

theorem description_length_required_only_by_getAllProducts:
  assumes "description_length (query req) = None"
    and "numeric_or_absent (page (query req))" and "numeric_or_absent (limit (query req))"
  shows "fst (getAllProducts st db req) = [Send 400 invalid_query]
    \<and> (\<exists>call rest. fst (searchProduct st db req) = Query call # rest
        \<and> ''SUBSTRING(description, 1, 200) as description'' \<in> set (call_literals call)
        \<and> (thrown db call = None \<longrightarrow> statuses rest = [200]))
    \<and> (\<exists>call rest. fst (getProductsByCategory st db req) = Query call # rest
        \<and> ''SUBSTRING(description, 1, 200) as description'' \<in> set (call_literals call)
        \<and> (thrown db call = None \<longrightarrow> statuses rest = [200]))
    \<and> (\<exists>call rest. fst (getProductsByDepartment st db req) = Query call # rest
        \<and> ''SUBSTRING(product.description, 1, 200) as description'' \<in> set (call_literals call)
        \<and> (thrown db call = None \<longrightarrow> statuses rest = [200]))
    \<and> (\<exists>call rest. fst (getProduct st db req) = Query call # rest
        \<and> ''SUBSTRING(description, 1, 200) as description'' \<in> set (call_literals call)
        \<and> (thrown db call = None \<longrightarrow> statuses rest = [200] \<or> statuses rest = [404]))"
  using getAllProducts_needs_description_length [OF assms(1)]
    searchProduct_default_length [OF assms] getProductsByCategory_default_length [OF assms]
    getProductsByDepartment_default_length [OF assms] getProduct_default_length [OF assms(1)]
  by blast

theorem description_length_required_only_by_getAllProducts_witness:
  "statuses (fst (getAllProducts initial_store (db_of [[(''name'', JString ''Hat'')]]) a_request)) = [400]
   \<and> (\<exists>call rest. fst (searchProduct initial_store (db_of [[(''name'', JString ''Hat'')]]) a_request)
          = Query call # rest
        \<and> ''SUBSTRING(description, 1, 200) as description'' \<in> set (call_literals call)
        \<and> statuses rest = [200])"
proof -
  have 1: "description_length (query a_request) = None"
    and 2: "numeric_or_absent (page (query a_request))"
    and 3: "numeric_or_absent (limit (query a_request))"
    by (simp_all add: a_request_def a_query_def numeric_or_absent_def)
  have 4: "thrown (db_of [[(''name'', JString ''Hat'')]]) call = None" for call
    by (cases call) (simp_all add: db_of_def)
  show ?thesis
    using description_length_required_only_by_getAllProducts
      [OF 1 2 3, of initial_store "db_of [[(''name'', JString ''Hat'')]]"]
    by (simp add: 4 statuses_def)
qed

section \<open>The category of a product\<close>

text \<open>
  Claim C10. When the join table answers at least one row for the product,
  \<^verbatim>\<open>getProductCategories\<close> sends 200 with the \<^verbatim>\<open>Category\<close> of the first row alone (the
  include asks for \<^verbatim>\<open>name\<close>, \<^verbatim>\<open>category_id\<close>, \<^verbatim>\<open>department_id\<close>); the other rows are not
  sent. When it answers no row, the response is 404 with the message
  \<^verbatim>\<open>Category not found\<close>.
\<close>

theorem getProductCategories_first_category:
  assumes "findAll db ProductCategory (Some q) = Inr categories"
    and "q = no_options
        \<lparr>opt_attributes := Some [],
         opt_where := [(''product_id'', Equals (product_id (params req)))],
         opt_include :=
           [Include Category None []
              (Some [Column ''name'', Column ''category_id'', Column ''department_id'']) []]\<rparr>"
  shows "fst (getProductCategories st db req)
    = [Query (FindAll ProductCategory (Some q)),
       (case categories of
          [] \<Rightarrow> Send 404 (not_found ''Category not found'')
        | first # others \<Rightarrow> Send 200 (get_prop first ''Category''))]"
  using assms
  by (cases categories) (simp_all add: getProductCategories_def Let_def try_findAll_def)

theorem getProductCategories_first_category_witness:
  "fst (getProductCategories initial_store
          (db_of [[(''Category'', JObject [(''name'', JString ''French'')])],
                  [(''Category'', JObject [(''name'', JString ''Italian'')])]]) a_request)
    = [Query (FindAll ProductCategory (Some (no_options
        \<lparr>opt_attributes := Some [],
         opt_where := [(''product_id'', Equals ''7'')],
         opt_include :=
           [Include Category None []
              (Some [Column ''name'', Column ''category_id'', Column ''department_id'']) []]\<rparr>))),
       Send 200 (JObject [(''name'', JString ''French'')])]"
  using getProductCategories_first_category
    [of "db_of [[(''Category'', JObject [(''name'', JString ''French'')])],
                [(''Category'', JObject [(''name'', JString ''Italian'')])]]"
        _ _ a_request initial_store]
  by (simp add: db_of_def a_request_def get_prop_def)

section \<open>Requests the guard rejects\<close>

lemma isNaN_param: "isNaN (param p) \<longleftrightarrow> \<not> (\<exists>d. p = Some d \<and> numeric d)"
  by (cases p) (simp_all add: isNaN_def numeric_def)

lemma getAllProducts_rejects:
  assumes "\<not> numeric_or_absent (page (query req)) \<or> \<not> numeric_or_absent (limit (query req))
    \<or> \<not> (\<exists>d. description_length (query req) = Some d \<and> numeric d)"
  shows "getAllProducts st db req = ([Send 400 invalid_query], st)"
  using assms by (auto simp: getAllProducts_def Let_def isNaN_js_or isNaN_param)

lemma searchProduct_rejects:
  assumes "\<not> numeric_or_absent (page (query req)) \<or> \<not> numeric_or_absent (limit (query req))
    \<or> \<not> numeric_or_absent (description_length (query req))"
  shows "searchProduct st db req = ([Send 400 invalid_query], st)"
  using assms by (auto simp: searchProduct_def Let_def isNaN_js_or isNaN_default_to)

lemma getProductsByCategory_rejects:
  assumes "\<not> numeric_or_absent (page (query req)) \<or> \<not> numeric_or_absent (limit (query req))
    \<or> \<not> numeric_or_absent (description_length (query req))"
  shows "getProductsByCategory st db req = ([Send 400 invalid_query], st)"
  using assms by (auto simp: getProductsByCategory_def Let_def isNaN_default_to)

lemma getProductsByDepartment_rejects:
  assumes "\<not> numeric_or_absent (page (query req)) \<or> \<not> numeric_or_absent (limit (query req))
    \<or> \<not> numeric_or_absent (description_length (query req))"
  shows "getProductsByDepartment st db req = ([Send 400 invalid_query], st)"
  using assms by (auto simp: getProductsByDepartment_def Let_def isNaN_default_to)

lemma getProduct_rejects:
  assumes "\<not> numeric_or_absent (description_length (query req))"
  shows "getProduct st db req
    = ([Send 400 (JObject
          [(''err'', JString ''description_length should be valid integer values''),
           (''status'', JBool False)])], st)"
  using assms by (simp add: getProduct_def Let_def isNaN_default_to)

section \<open>Pagination\<close>









lemma js_sub_Fin: "js_sub (Fin a) (Fin 1) = (if a = 1 then Fin 0 else round_double (a - 1))"
  by (simp add: js_sub_def js_add_def)

lemma js_mul_Fin:
  "js_mul (Fin a) (Fin b)
     = (if a = 0 \<or> b = 0 then signed_zero ((a < 0) \<noteq> (b < 0)) else round_double (a * b))"
  by (simp add: js_mul_def)




lemma queries_sent_only [simp]: "queries [Send n body] = []"
  by simp





lemma sent_try_findAll:
  "sent (try_findAll db m q rest)
     = (case findAll db m q of Inl e \<Rightarrow> [] | Inr xs \<Rightarrow> sent (rest xs))"
  by (simp add: try_findAll_def split: sum.splits)

lemma sent_try_findAndCountAll:
  "sent (try_findAndCountAll db m q rest)
     = (case findAndCountAll db m q of Inl e \<Rightarrow> [] | Inr r \<Rightarrow> sent (rest r))"
  by (simp add: try_findAndCountAll_def split: sum.splits)

lemma sent_try_findByPk:
  "sent (try_findByPk db m k q rest)
     = (case findByPk db m k q of Inl e \<Rightarrow> [] | Inr x \<Rightarrow> sent (rest x))"
  by (simp add: try_findByPk_def split: sum.splits)












section \<open>Responses\<close>

lemma sent_lookup:
  "sent (try_findByPk db m k q
       (\<lambda>found. case found of Some p \<Rightarrow> [Send 200 (f p)] | None \<Rightarrow> [Send 404 b]))
     = (case findByPk db m k q of
          Inl e \<Rightarrow> []
        | Inr None \<Rightarrow> [(404, b)]
        | Inr (Some x) \<Rightarrow> [(200, f x)])"
  by (simp add: sent_try_findByPk split: sum.splits option.splits)

lemma sent_find_one:
  "sent (find_one m kind ident db)
     = (case findByPk db m ident None of
          Inl e \<Rightarrow> []
        | Inr None \<Rightarrow> [(404, not_found (kind @ '' with id '' @ ident @ '' does not exist''))]
        | Inr (Some x) \<Rightarrow> [(200, JObject x)])"
  unfolding find_one_def sent_lookup ..

lemma sent_getProduct:
  assumes "numeric_or_absent (description_length (query req))"
  shows "\<exists>q. sent (fst (getProduct st db req))
     = (case findByPk db Product (product_id (params req)) q of
          Inl e \<Rightarrow> []
        | Inr None \<Rightarrow> [(404, not_found (''Product with id '' @ product_id (params req)
             @ '' does not exist''))]
        | Inr (Some x) \<Rightarrow> [(200, JObject x)])"
  unfolding getProduct_issues [OF assms] sent_lookup
  by (rule exI) (rule refl)

text \<open>
  Claim C4, as amended. In \<^verbatim>\<open>getDepartment\<close>, \<^verbatim>\<open>getSingleCategory\<close>, \<^verbatim>\<open>getSingleTax\<close> and
  \<^verbatim>\<open>getSingleAttribute\<close>, and in \<^verbatim>\<open>getProduct\<close> when \<^verbatim>\<open>description_length\<close> is absent or
  numeric, a lookup that finds no entity with the requested id is answered with 404
  and the body \<^verbatim>\<open>{ error: { status: 404, message } }\<close>, where the message is the kind of
  entity, \<^verbatim>\<open>with id\<close>, the id, \<^verbatim>\<open>does not exist\<close>.
\<close>

theorem missing_entity_404:
  "(numeric_or_absent (description_length (query req))
      \<and> (\<forall>q. findByPk db Product (product_id (params req)) q = Inr None)
    \<longrightarrow> sent (fst (getProduct st db req))
      = [(404, not_found (''Product with id '' @ product_id (params req) @ '' does not exist''))])
   \<and> ((\<forall>q. findByPk db Department (department_id (params req)) q = Inr None)
    \<longrightarrow> sent (fst (getDepartment st db req))
      = [(404, not_found (''Department with id '' @ department_id (params req)
           @ '' does not exist''))])
   \<and> ((\<forall>q. findByPk db Category (category_id (params req)) q = Inr None)
    \<longrightarrow> sent (fst (getSingleCategory st db req))
      = [(404, not_found (''Category with id '' @ category_id (params req)
           @ '' does not exist''))])
   \<and> ((\<forall>q. findByPk db Tax (tax_id (params req)) q = Inr None)
    \<longrightarrow> sent (fst (getSingleTax st db req))
      = [(404, not_found (''Tax with id '' @ tax_id (params req) @ '' does not exist''))])
   \<and> ((\<forall>q. findByPk db Attribute (attribute_id (params req)) q = Inr None)
    \<longrightarrow> sent (fst (getSingleAttribute st db req))
      = [(404, not_found (''Attribute with id '' @ attribute_id (params req)
           @ '' does not exist''))])"
proof (intro conjI impI)
  assume "numeric_or_absent (description_length (query req))
      \<and> (\<forall>q. findByPk db Product (product_id (params req)) q = Inr None)"
  then show "sent (fst (getProduct st db req))
      = [(404, not_found (''Product with id '' @ product_id (params req) @ '' does not exist''))]"
    using sent_getProduct [of req st db] by auto
qed (simp_all add: getDepartment_def getSingleCategory_def getSingleTax_def
    getSingleAttribute_def sent_find_one)

theorem missing_entity_404_witness:
  "sent (fst (getProduct initial_store (db_of []) a_request))
      = [(404, not_found ''Product with id 7 does not exist'')]
   \<and> sent (fst (getDepartment initial_store (db_of []) a_request))
      = [(404, not_found ''Department with id 2 does not exist'')]
   \<and> sent (fst (getSingleCategory initial_store (db_of []) a_request))
      = [(404, not_found ''Category with id 3 does not exist'')]
   \<and> sent (fst (getSingleTax initial_store (db_of []) a_request))
      = [(404, not_found ''Tax with id 1 does not exist'')]
   \<and> sent (fst (getSingleAttribute initial_store (db_of []) a_request))
      = [(404, not_found ''Attribute with id 4 does not exist'')]"
proof -
  have 1: "numeric_or_absent (description_length (query a_request))"
    by (simp add: a_request_def a_query_def numeric_or_absent_def)
  have 2: "findByPk (db_of []) m k q = Inr None" for m k q
    by (simp add: db_of_def)
  show ?thesis
    using missing_entity_404 [of a_request "db_of []" initial_store] 1 2
    by (simp add: a_request_def)
qed

theorem missing_entity_404_counterexample:
  "findByPk (db_of []) Product ''7'' None = Inr None
   \<and> sent (fst (getProduct initial_store (db_of [])
        (a_request\<lparr>query := a_query\<lparr>description_length := Some ''abc''\<rparr>\<rparr>)))
     = [(400, JObject [(''err'', JString ''description_length should be valid integer values''),
                       (''status'', JBool False)])]"
proof -
  have "\<not> numeric ''abc''"
    by code_simp
  then have "\<not> numeric_or_absent (description_length
      (query (a_request\<lparr>query := a_query\<lparr>description_length := Some ''abc''\<rparr>\<rparr>)))"
    by (simp add: numeric_or_absent_def)
  then show ?thesis
    by (simp add: getProduct_rejects db_of_def)
qed

lemma getAllProducts_200:
  assumes "(200, body) \<in> set (sent (fst (getAllProducts st db req)))"
  shows "\<exists>P L count rows. body
    = JObject [(''paginationMeta'', paginationMeta P L count),
               (''rows'', JArray (map JObject rows)), (''status'', JBool True)]"
  using assms
  by (auto simp: getAllProducts_def Let_def sent_try_findAndCountAll
      split: if_splits sum.splits prod.splits)

lemma searchProduct_200:
  assumes "(200, body) \<in> set (sent (fst (searchProduct st db req)))"
  shows "\<exists>product. body = JArray (map JObject product)"
  using assms
  by (auto simp: searchProduct_def Let_def concat_array_def sent_try_findAll
      split: if_splits sum.splits)

lemma getProductsByCategory_200:
  assumes "(200, body) \<in> set (sent (fst (getProductsByCategory st db req)))"
  shows "\<exists>rows. body = JObject [(''rows'', JArray rows)]"
  using assms
  by (auto simp: getProductsByCategory_def Let_def sent_try_findAll
      split: if_splits sum.splits)

lemma getProductsByDepartment_200:
  assumes "(200, body) \<in> set (sent (fst (getProductsByDepartment st db req)))"
  shows "\<exists>rows. body = JObject [(''rows'', JArray rows)]"
  using assms
  by (auto simp: getProductsByDepartment_def Let_def sent_try_findAll
      split: if_splits sum.splits)

lemma getProduct_404:
  assumes "(404, body) \<in> set (sent (fst (getProduct st db req)))"
  shows "\<exists>message. body = not_found message"
proof (cases "numeric_or_absent (description_length (query req))")
  case True
  from sent_getProduct [OF True, of st db] obtain q where
    q: "sent (fst (getProduct st db req))
     = (case findByPk db Product (product_id (params req)) q of
          Inl e \<Rightarrow> []
        | Inr None \<Rightarrow> [(404, not_found (''Product with id '' @ product_id (params req)
             @ '' does not exist''))]
        | Inr (Some x) \<Rightarrow> [(200, JObject x)])"
    by blast
  show ?thesis
  proof (cases "findByPk db Product (product_id (params req)) q")
    case (Inl e)
    with assms q show ?thesis by simp
  next
    case (Inr found)
    with assms q show ?thesis by (cases found) auto
  qed
next
  case False
  with assms show ?thesis by (simp add: getProduct_rejects)
qed

lemma find_one_404:
  assumes "(404, body) \<in> set (sent (find_one m kind ident db))"
  shows "\<exists>message. body = not_found message"
  using assms by (auto simp: sent_find_one split: sum.splits option.splits)

lemma list_404:
  "(404, body) \<notin> set (sent (fst (getAllProducts st db req)))"
  "(404, body) \<notin> set (sent (fst (searchProduct st db req)))"
  "(404, body) \<notin> set (sent (fst (getProductsByCategory st db req)))"
  "(404, body) \<notin> set (sent (fst (getProductsByDepartment st db req)))"
  by (auto simp: getAllProducts_def searchProduct_def getProductsByCategory_def
      getProductsByDepartment_def Let_def concat_array_def sent_try_findAll
      sent_try_findAndCountAll split: if_splits sum.splits prod.splits)

lemma simple_404:
  "(404, body) \<notin> set (sent (fst (getAllDepartments st db req)))"
  "(404, body) \<notin> set (sent (fst (getAllCategories st db req)))"
  "(404, body) \<notin> set (sent (fst (getDepartmentCategories st db req)))"
  "(404, body) \<notin> set (sent (fst (getProductReviews st db req)))"
  "(404, body) \<notin> set (sent (fst (getAllTax st db req)))"
  "(404, body) \<notin> set (sent (fst (getAllAttributes st db req)))"
  "(404, body) \<notin> set (sent (fst (getProductAttributes st db req)))"
  by (auto simp: getAllDepartments_def getAllCategories_def getDepartmentCategories_def
      getProductReviews_def getAllTax_def getAllAttributes_def getProductAttributes_def Let_def
      sent_try_findAll split: sum.splits)

lemma other_404:
  "(404, body) \<in> set (sent (fst (getProductCategories st db req)))
     \<Longrightarrow> \<exists>message. body = not_found message"
  "(404, body) \<in> set (sent (fst (getAttributeValues st db req)))
     \<Longrightarrow> \<exists>message. body = not_found message"
  by (auto simp: getProductCategories_def getAttributeValues_def Let_def
      sent_try_findAll sent_try_findByPk split: sum.splits option.splits if_splits)

lemma every_404:
  assumes "(404, body) \<in> set (sent (fst (handle ep st db req)))"
  shows "\<exists>message. body = not_found message"
  using assms
  by (cases ep)
    (simp_all add: list_404 simple_404 other_404 getProduct_404 find_one_404
      getDepartment_def getSingleCategory_def getSingleTax_def getSingleAttribute_def Let_def)

text \<open>
  Claim C5, as amended. A 200 body of \<^verbatim>\<open>getAllProducts\<close> is an object with the keys
  \<^verbatim>\<open>paginationMeta\<close>, \<^verbatim>\<open>rows\<close> and \<^verbatim>\<open>status\<close>; a 200 body of \<^verbatim>\<open>searchProduct\<close> is the bare
  array of products; a 200 body of \<^verbatim>\<open>getProductsByCategory\<close> or
  \<^verbatim>\<open>getProductsByDepartment\<close> is an object with the one key \<^verbatim>\<open>rows\<close>. Every 404 body, of
  any controller method, is \<^verbatim>\<open>{ error: { status: 404, message } }\<close>.
\<close>

theorem response_shapes:
  "(\<forall>body. (200, body) \<in> set (sent (fst (getAllProducts st db req)))
      \<longrightarrow> keys body = Some [''paginationMeta'', ''rows'', ''status''])
   \<and> (\<forall>body. (200, body) \<in> set (sent (fst (searchProduct st db req)))
      \<longrightarrow> (\<exists>products. body = JArray products))
   \<and> (\<forall>body. (200, body) \<in> set (sent (fst (getProductsByCategory st db req)))
      \<longrightarrow> keys body = Some [''rows''])
   \<and> (\<forall>body. (200, body) \<in> set (sent (fst (getProductsByDepartment st db req)))
      \<longrightarrow> keys body = Some [''rows''])
   \<and> (\<forall>ep body. (404, body) \<in> set (sent (fst (handle ep st db req)))
      \<longrightarrow> (\<exists>message. body
            = JObject [(''error'', JObject [(''status'', JNumber (Fin 404)),
                                            (''message'', JString message)])]))"
proof (intro conjI allI impI)
  fix body
  assume "(200, body) \<in> set (sent (fst (getAllProducts st db req)))"
  then show "keys body = Some [''paginationMeta'', ''rows'', ''status'']"
    by (auto dest: getAllProducts_200)
next
  fix body
  assume "(200, body) \<in> set (sent (fst (searchProduct st db req)))"
  then show "\<exists>products. body = JArray products"
    by (auto dest: searchProduct_200)
next
  fix body
  assume "(200, body) \<in> set (sent (fst (getProductsByCategory st db req)))"
  then show "keys body = Some [''rows'']"
    by (auto dest: getProductsByCategory_200)
next
  fix body
  assume "(200, body) \<in> set (sent (fst (getProductsByDepartment st db req)))"
  then show "keys body = Some [''rows'']"
    by (auto dest: getProductsByDepartment_200)
next
  fix ep body
  assume "(404, body) \<in> set (sent (fst (handle ep st db req)))"
  then show "\<exists>message. body
      = JObject [(''error'', JObject [(''status'', JNumber (Fin 404)),
                                      (''message'', JString message)])]"
    using every_404 [of body ep st db req] by (simp add: not_found_def)
qed

theorem response_shapes_witness:
  "keys (JObject [(''paginationMeta'', paginationMeta (Num 1) (Num 20) 1),
                  (''rows'', JArray [JObject [(''name'', JString ''Hat'')]]),
                  (''status'', JBool True)])
     = Some [''paginationMeta'', ''rows'', ''status'']
   \<and> (\<exists>products. JArray [JObject [(''name'', JString ''Hat'')]] = JArray products)
   \<and> (\<exists>message. not_found ''Product with id 7 does not exist''
          = JObject [(''error'', JObject [(''status'', JNumber (Fin 404)),
                                          (''message'', JString message)])])"
proof -
  let ?db = "db_of [[(''name'', JString ''Hat'')]]"
  let ?req = "a_request\<lparr>query := a_query\<lparr>description_length := Some ''10''\<rparr>\<rparr>"
  have n: "numeric ''10''"
    using safe_StringToNumber [of "''10''"] by (simp add: numeric_def digit_simps)
  have 1: "(200, JObject [(''paginationMeta'', paginationMeta (Num 1) (Num 20) 1),
                  (''rows'', JArray [JObject [(''name'', JString ''Hat'')]]),
                  (''status'', JBool True)])
      \<in> set (sent (fst (getAllProducts initial_store ?db ?req)))"
    using n
    by (simp add: getAllProducts_def Let_def isNaN_def js_or_def numeric_def
        sent_try_findAndCountAll db_of_def a_request_def a_query_def)
  have 2: "(200, JArray [JObject [(''name'', JString ''Hat'')]])
      \<in> set (sent (fst (searchProduct initial_store ?db ?req)))"
    using n
    by (simp add: searchProduct_def Let_def isNaN_def js_or_def numeric_def concat_array_def
        sent_try_findAll db_of_def a_request_def a_query_def)
  have 3: "(404, not_found ''Product with id 7 does not exist'')
      \<in> set (sent (fst (handle GetProduct initial_store (db_of []) ?req)))"
    using n
    by (simp add: getProduct_def Let_def isNaN_def numeric_def concat_array_def
        sent_try_findByPk db_of_def a_request_def a_query_def)
  show ?thesis
    using response_shapes [of initial_store ?db ?req] response_shapes [of initial_store "db_of []" ?req]
      1 2 3
    by blast
qed

theorem response_shapes_counterexample:
  "sent (fst (searchProduct initial_store (db_of [[(''name'', JString ''Hat'')]]) a_request))
     = [(200, JArray [JObject [(''name'', JString ''Hat'')]])]
   \<and> sent (fst (getProductsByCategory initial_store
         (db_of [[(''product'', JObject [(''name'', JString ''Hat'')])]]) a_request))
     = [(200, JObject [(''rows'', JArray [JObject [(''name'', JString ''Hat'')]])])]"
  by (simp add: searchProduct_def getProductsByCategory_def Let_def isNaN_def js_or_def
      concat_array_def sent_try_findAll db_of_def a_request_def a_query_def get_prop_def)

section \<open>Search\<close>







section \<open>Validation of non-integers\<close>

text \<open>
  Claim C2. The guard is \<^verbatim>\<open>isNaN\<close>, which lets every numeric text through: with
  \<^verbatim>\<open>page=1.5\<close>, \<^verbatim>\<open>getAllProducts\<close> does not answer 400; it calls the finder, with offset
  \<open>(1.5 - 1) * 10 = 5\<close>, and echoes \<^verbatim>\<open>parseInt\<close> of the page.
\<close>

theorem non_integer_page_passes_validation:
  "fst (getAllProducts initial_store (db_of [])
      (a_request\<lparr>query := a_query\<lparr>page := Some ''1.5'', limit := Some ''10'',
         description_length := Some ''5''\<rparr>\<rparr>))
    = [Query (FindAndCountAll Product
         \<lparr>opt_attributes = Some
            [Column ''product_id'', Column ''name'', Column ''price'', Column ''thumbnail'',
             Column ''discounted_price'', Column ''description'',
             Literal ''SUBSTRING(description, 1, 5) as description''],
          opt_limit = Some (Fin 10), opt_offset = Some (Fin 5), opt_where = [],
          opt_include = []\<rparr>),
       Send 200 (JObject
         [(''paginationMeta'', JObject
             [(''currentPage'', JNumber (Fin 1)), (''currentPageSize'', JNumber (Fin 10)),
              (''totalPages'', JNumber (Fin 0)), (''totalRecords'', JNumber (Fin 0))]),
          (''rows'', JArray []), (''status'', JBool True)])]"
proof -
  have f: "floor_log2 (3 / 2) = 0" "floor_log2 (1 / 2) = - 1"
    by code_simp+
  have k: "round_half_even (numeral i) = numeral i" for i
    using round_half_even_of_int [of "numeral i"] by simp
  have r: "round_double (3 / 2) = Fin (3 / 2)" "round_double (1 / 2) = Fin (1 / 2)"
    using round_double_normal(1) [of "3 / 2"] round_double_normal(1) [of "1 / 2"]
    by (simp_all add: f k power_int_minus)
  have n: "StringToNumber ''1.5'' = Fin (3 / 2)" "StringToNumber ''10'' = Fin 10"
      "StringToNumber ''5'' = Fin 5" "parseInt10 ''1.5'' = Fin 1" "parseInt10 ''10'' = Fin 10"
    using safe_StringToNumber [of "''10''"] safe_StringToNumber [of "''5''"]
      safe_parseInt10 [of "''10''"] round_double_nat(1) [of 1] r(1)
    by (simp_all add: StringToNumber_def trim_def isWhiteSpace_def radixOfPrefix_def
        unsignedDecimal_def exponentPart_def scale10_def parseInt10_def digit_simps)
  have m: "js_mul (js_sub (Fin (3 / 2)) (Fin 1)) (Fin 10) = Fin 5"
    using r(2) round_double_nat(1) [of 5] by (simp add: js_sub_Fin js_mul_Fin)
  have z: "round_double 0 = Fin 0"
    by (simp add: round_double_def)
  have t: "Math_ceil (js_div (Fin 0) (Fin 10)) = Fin 0"
    by (simp add: js_div_def signed_zero_def)
  show ?thesis
    by (simp add: getAllProducts_def Let_def isNaN_def js_or_def n m z t parseInt_def push_def
        try_findAndCountAll_def db_of_def snapshot_def Object_assign_empty_def
        productsQueryMap_def paginationMeta_def a_request_def a_query_def initial_store_def)
qed

section \<open>The shared array of \<^verbatim>\<open>productsQueryMap\<close>\<close>

lemma other_handlers_keep_productsQueryMap:
  assumes "ep \<noteq> GetAllProducts"
  shows "heap (snd (handle ep st db req)) ProductsQueryMapAttributes
    = heap st ProductsQueryMapAttributes"
  using assms
  by (cases ep)
    (simp_all add: searchProduct_def getProductsByCategory_def getProductsByDepartment_def
      getProduct_def getAllDepartments_def getDepartment_def getAllCategories_def
      getSingleCategory_def getDepartmentCategories_def getProductCategories_def
      getProductReviews_def getAllTax_def getSingleTax_def getAllAttributes_def
      getSingleAttribute_def getAttributeValues_def getProductAttributes_def Let_def
      concat_array_def)

text \<open>
  Claim C6. \<^verbatim>\<open>getAllProducts\<close> pushes its literal onto the array that
  \<^verbatim>\<open>productsQueryMap.attributes\<close> refers to: after one request the module-level array has
  a seventh entry, and the same request handled again asks for the literal twice.
\<close>

theorem getAllProducts_grows_productsQueryMap:
  "heap (snd (getAllProducts initial_store (db_of [])
       (a_request\<lparr>query := a_query\<lparr>description_length := Some ''10''\<rparr>\<rparr>)))
     ProductsQueryMapAttributes
   = heap initial_store ProductsQueryMapAttributes
     @ [Literal ''SUBSTRING(description, 1, 10) as description'']
   \<and> map call_literals (queries (fst (getAllProducts initial_store (db_of [])
       (a_request\<lparr>query := a_query\<lparr>description_length := Some ''10''\<rparr>\<rparr>))))
   = [[''SUBSTRING(description, 1, 10) as description'']]
   \<and> map call_literals (queries (fst (getAllProducts
       (snd (getAllProducts initial_store (db_of [])
          (a_request\<lparr>query := a_query\<lparr>description_length := Some ''10''\<rparr>\<rparr>)))
       (db_of [])
       (a_request\<lparr>query := a_query\<lparr>description_length := Some ''10''\<rparr>\<rparr>))))
   = [[''SUBSTRING(description, 1, 10) as description'',
       ''SUBSTRING(description, 1, 10) as description'']]"
proof -
  have n: "StringToNumber ''10'' = Fin 10"
    using safe_StringToNumber [of "''10''"] by (simp add: digit_simps)
  show ?thesis
    by (simp add: getAllProducts_def Let_def isNaN_def js_or_def n push_def
        try_findAndCountAll_def db_of_def snapshot_def call_literals_def
        Object_assign_empty_def productsQueryMap_def a_request_def a_query_def initial_store_def)
qed

end
